theory Spec2Isabelle
  imports Main "HOL-Library.AList" "HOL-Library.Multiset"
begin

section \<open>BETRAYAL: the online session engine of card.py\<close>

text \<open>
  The model follows \<^verbatim>\<open>src/card.py\<close>. Cards are the file-name strings the source
  uses (\<^verbatim>\<open>'statecard'\<close>, ...), player ids are the integer row ids of the
  \<^verbatim>\<open>users\<close> table, Python dictionaries are association lists updated with
  \<open>AList.update\<close> (a present key keeps its place, a new key goes to the end, as in
  a Python \<^verbatim>\<open>dict\<close>), and lists are lists. Strings are byte lists (UTF-8).

  What the source gets from outside is a parameter of the model:
  \<^item> the \<^verbatim>\<open>users\<close> table, as its rows \<open>(id, username)\<close>;
  \<^item> the values drawn from \<^verbatim>\<open>random\<close> during one call, as a list of naturals
    read from the left (an exhausted list reads as 0);
  \<^item> the fresh \<^verbatim>\<open>str(uuid.uuid4())[:8]\<close> and the reading of \<^verbatim>\<open>time.time()\<close>;
  \<^item> \<^verbatim>\<open>current_user()\<close>, as the id of the logged-in user, if any;
  \<^item> the form fields \<^verbatim>\<open>card\<close> (absent is \<open>None\<close>) and \<^verbatim>\<open>target_username\<close>
    (the value after \<^verbatim>\<open>.strip()\<close>, as the local variable of that name holds it).
\<close>

type_synonym card = string
type_synonym users_db = "(int \<times> string) list"

subsection \<open>Configuration and deck (lines 38, 75-81)\<close>

definition MATCH_SIZE :: nat where
  "MATCH_SIZE = 5"

definition base_deck :: "card list" where
  "base_deck =
     concat (map (replicate 5)
       [''statecard'', ''searchcard'', ''shieldcard'', ''takecard'', ''exchangecard'', ''judgecard''])
     @ [''killcard'', ''accusatecard'']"

text \<open>\<^verbatim>\<open>random\<close>: the next raw value of the generator, reduced to \<open>{0..<n}\<close>.\<close>

definition randbelow :: "nat \<Rightarrow> nat list \<Rightarrow> nat" where
  "randbelow n rs = (case rs of [] \<Rightarrow> 0 | r # _ \<Rightarrow> r mod n)"

text \<open>
  \<^verbatim>\<open>random.shuffle(x)\<close> is CPython's loop
  \<^verbatim>\<open>for i in reversed(range(1, len(x))): j = randbelow(i + 1); x[i], x[j] = x[j], x[i]\<close>.
  \<open>shuffle_loop n\<close> runs it for \<open>i = n, ..., 1\<close> and returns the unread random values.
\<close>

fun shuffle_loop :: "nat \<Rightarrow> nat list \<Rightarrow> 'a list \<Rightarrow> 'a list \<times> nat list" where
  "shuffle_loop 0 rs xs = (xs, rs)"
| "shuffle_loop (Suc i) rs xs =
     (let j = randbelow (Suc (Suc i)) rs
      in shuffle_loop i (tl rs) (xs[Suc i := xs ! j, j := xs ! Suc i]))"

definition shuffle :: "nat list \<Rightarrow> 'a list \<Rightarrow> 'a list \<times> nat list" where
  "shuffle rs xs = shuffle_loop (length xs - 1) rs xs"

definition make_new_deck :: "nat list \<Rightarrow> card list" where
  "make_new_deck rs = fst (shuffle rs base_deck)"

subsection \<open>The users table (lines 803-813)\<close>

definition digit_char :: "nat \<Rightarrow> char" where
  "digit_char d = char_of (48 + d)"

fun str_nat :: "nat \<Rightarrow> string" where
  "str_nat n = (if n < 10 then [digit_char n] else str_nat (n div 10) @ [digit_char (n mod 10)])"

declare str_nat.simps [simp del]

definition str_int :: "int \<Rightarrow> string" where
  "str_int i = (if i < 0 then CHR ''-'' # str_nat (nat (- i)) else str_nat (nat i))"

definition get_username_by_id :: "users_db \<Rightarrow> int \<Rightarrow> string" where
  "get_username_by_id db uid =
     (case map_of db uid of Some name \<Rightarrow> name | None \<Rightarrow> ''UID'' @ str_int uid)"

definition get_userid_by_username :: "users_db \<Rightarrow> string \<Rightarrow> int option" where
  "get_userid_by_username db username = map_option fst (find (\<lambda>r. snd r = username) db)"

subsection \<open>Game state (lines 148-161)\<close>

record game =
  game_id :: string
  players :: "int list"
  alive :: "int list"
  hands :: "(int \<times> card list) list"
  deck :: "card list"
  used :: "card list"
  killer :: "int option"
  shields_equipped :: "(int \<times> bool) list"
  log :: "string list"
  started_at :: int
  finished :: bool
  winner :: "string option"

text \<open>\<^verbatim>\<open>hands.get(p, [])\<close>\<close>

definition hand_of :: "(int \<times> card list) list \<Rightarrow> int \<Rightarrow> card list" where
  "hand_of hs p = (case map_of hs p of None \<Rightarrow> [] | Some h \<Rightarrow> h)"

text \<open>
  The spec's card count \<open>|deck| + \<Sum>|hand_p| + |used|\<close>, over every entry of the
  \<^verbatim>\<open>hands\<close> dictionary.
\<close>

definition hands_total :: "(int \<times> card list) list \<Rightarrow> nat" where
  "hands_total hs = sum_list (map (\<lambda>e. length (snd e)) hs)"

definition total_cards :: "game \<Rightarrow> nat" where
  "total_cards g = length (deck g) + hands_total (hands g) + length (used g)"

subsection \<open>Session creation (lines 133-165)\<close>

text \<open>
  \<^verbatim>\<open>hands[pid] = [deck.pop() for _ in range(3)]\<close> for each player in turn; a
  \<^verbatim>\<open>pop\<close> from an empty deck raises \<^verbatim>\<open>IndexError\<close>, which is \<open>None\<close> here.
\<close>

fun deal :: "int list \<Rightarrow> (int \<times> card list) list \<Rightarrow> card list
    \<Rightarrow> ((int \<times> card list) list \<times> card list) option" where
  "deal [] hs d = Some (hs, d)"
| "deal (pid # pids) hs d =
     (if length d < 3 then None
      else deal pids (AList.update pid (take 3 (rev d)) hs) (take (length d - 3) d))"

definition find_killer :: "(int \<times> card list) list \<Rightarrow> int option" where
  "find_killer hs = map_option fst (find (\<lambda>e. ''killcard'' \<in> set (snd e)) hs)"

record app_state =
  matchmaking_queue :: "int list"
  games :: "(string \<times> game) list"
  user_to_game :: "(int \<times> string) list"

definition initial_state :: app_state where
  "initial_state = \<lparr>matchmaking_queue = [], games = [], user_to_game = []\<rparr>"

definition new_game :: "int list \<Rightarrow> nat list \<Rightarrow> string \<Rightarrow> int \<Rightarrow> game option" where
  "new_game player_ids rs gid now =
     (case deal player_ids [] (make_new_deck rs) of
        None \<Rightarrow> None
      | Some (hs, d) \<Rightarrow>
          Some \<lparr>game_id = gid, players = player_ids, alive = player_ids, hands = hs,
                deck = d, used = [], killer = find_killer hs, shields_equipped = [],
                log = [], started_at = now, finished = False, winner = None\<rparr>)"

definition create_game_for_players ::
    "int list \<Rightarrow> nat list \<Rightarrow> string \<Rightarrow> int \<Rightarrow> app_state \<Rightarrow> (game \<times> app_state) option" where
  "create_game_for_players player_ids rs gid now st =
     (case new_game player_ids rs gid now of
        None \<Rightarrow> None
      | Some g \<Rightarrow>
          Some (g, st\<lparr>games := AList.update (game_id g) g (games st),
                       user_to_game :=
                         fold (\<lambda>pid m. AList.update pid (game_id g) m) player_ids (user_to_game st)\<rparr>))"

subsection \<open>Matchmaking (lines 559-582)\<close>

datatype join_response = Login_required | Started string | Not_started | Server_error

definition join_queue ::
    "int option \<Rightarrow> nat list \<Rightarrow> string \<Rightarrow> int \<Rightarrow> app_state \<Rightarrow> join_response \<times> app_state" where
  "join_queue user rs gid now st =
     (case user of
        None \<Rightarrow> (Login_required, st)
      | Some uid \<Rightarrow>
          let q = (if uid \<notin> set (matchmaking_queue st) then matchmaking_queue st @ [uid]
                   else matchmaking_queue st)
          in if length q \<ge> MATCH_SIZE then
               (let ps = take MATCH_SIZE q;
                    st1 = st\<lparr>matchmaking_queue := drop MATCH_SIZE q\<rparr>
                in case create_game_for_players ps rs gid now st1 of
                     None \<Rightarrow> (Server_error, st1)
                   | Some (g, st2) \<Rightarrow> (Started (game_id g), st2))
             else (Not_started, st\<lparr>matchmaking_queue := q\<rparr>))"

definition leave_queue :: "int option \<Rightarrow> app_state \<Rightarrow> app_state" where
  "leave_queue user st =
     (case user of
        None \<Rightarrow> st
      | Some uid \<Rightarrow> st\<lparr>matchmaking_queue := remove1 uid (matchmaking_queue st)\<rparr>)"

text \<open>A run of \<^verbatim>\<open>join\<close> requests, each with its own outside values.\<close>

record join_call =
  jc_user :: int
  jc_rand :: "nat list"
  jc_gid :: string
  jc_now :: int

definition join_step :: "app_state \<Rightarrow> join_call \<Rightarrow> app_state" where
  "join_step st c = snd (join_queue (Some (jc_user c)) (jc_rand c) (jc_gid c) (jc_now c) st)"

definition run_joins :: "join_call list \<Rightarrow> app_state" where
  "run_joins cs = foldl join_step initial_state cs"

subsection \<open>Win check (lines 507-513)\<close>

definition winner_by_killer :: "int list \<Rightarrow> int option \<Rightarrow> bool" where
  "winner_by_killer al k =
     (case k of
        None \<Rightarrow> False
      | Some x \<Rightarrow> x \<in> set al \<and> length (filter (\<lambda>p. p \<noteq> x) al) = 0)"

subsection \<open>Playing a card (lines 661-800)\<close>

datatype play_error = Login_redirect | Not_found_or_not_player | Eliminated | Invalid_card_selection

text \<open>Python truthiness of a looked-up id: not \<^verbatim>\<open>None\<close> and not 0.\<close>

definition truthy :: "int option \<Rightarrow> bool" where
  "truthy x = (case x of None \<Rightarrow> False | Some i \<Rightarrow> i \<noteq> 0)"

text \<open>
  The effects below run on the game after line 681 has removed the played card from
  the actor's hand.
\<close>

definition effect_state :: "users_db \<Rightarrow> int \<Rightarrow> card \<Rightarrow> game \<Rightarrow> game" where
  "effect_state db uid c g =
     g\<lparr>log := log g @ [get_username_by_id db uid @ '' played STATE.''],
       used := used g @ [c]\<rparr>"

text \<open>
  The three rounds of lines 691-698, on the deck, the used pile, the cards drawn so far
  and the unread random values.
\<close>

fun search_draw :: "nat \<Rightarrow> card list \<Rightarrow> card list \<Rightarrow> card list \<Rightarrow> nat list
    \<Rightarrow> card list \<times> card list \<times> card list" where
  "search_draw 0 d u draws rs = (d, u, draws)"
| "search_draw (Suc n) d u draws rs =
     (let (d1, u1, rs1) =
            (if d = [] then (fst (shuffle rs u), [], snd (shuffle rs u)) else (d, u, rs))
      in if d1 \<noteq> [] then search_draw n (butlast d1) u1 (draws @ [last d1]) rs1
         else search_draw n d1 u1 draws rs1)"

definition effect_search :: "users_db \<Rightarrow> int \<Rightarrow> card \<Rightarrow> nat list \<Rightarrow> game \<Rightarrow> game" where
  "effect_search db uid c rs g =
     (case search_draw 3 (deck g) (used g @ [c]) [] rs of
        (d, u, draws) \<Rightarrow>
          g\<lparr>used := u, deck := d,
            hands := AList.update uid (hand_of (hands g) uid @ draws) (hands g),
            log := log g @ [get_username_by_id db uid @ '' searched and drew ''
                            @ str_nat (length draws) @ '' card(s).'']\<rparr>)"

definition effect_shield :: "users_db \<Rightarrow> int \<Rightarrow> game \<Rightarrow> game" where
  "effect_shield db uid g =
     g\<lparr>shields_equipped := AList.update uid True (shields_equipped g),
       log := log g @ [get_username_by_id db uid @ '' equipped SHIELD.'']\<rparr>"

definition effect_take :: "users_db \<Rightarrow> int \<Rightarrow> card \<Rightarrow> string \<Rightarrow> nat list \<Rightarrow> game \<Rightarrow> game" where
  "effect_take db uid c target_username rs g =
     (let g1 = g\<lparr>used := used g @ [c]\<rparr>
      in if target_username \<noteq> [] then
           (let target_id = get_userid_by_username db target_username
            in if truthy target_id \<and> the target_id \<in> set (alive g1) \<and> the target_id \<noteq> uid then
                 (let target_hand = hand_of (hands g1) (the target_id)
                  in if target_hand \<noteq> [] then
                       (let taken = target_hand ! randbelow (length target_hand) rs;
                            hs1 = AList.update (the target_id) (remove1 taken target_hand) (hands g1);
                            hs2 = AList.update uid (hand_of hs1 uid @ [taken]) hs1
                        in g1\<lparr>hands := hs2,
                              log := log g1 @ [get_username_by_id db uid @ '' took a card from ''
                                               @ target_username @ ''.'']\<rparr>)
                     else g1\<lparr>log := log g1 @ [target_username @ '' had no cards to take.'']\<rparr>)
               else g1\<lparr>log := log g1 @ [''Invalid target for TAKE.'']\<rparr>)
         else g1\<lparr>log := log g1 @ [''No target provided for TAKE.'']\<rparr>)"

definition effect_exchange :: "users_db \<Rightarrow> int \<Rightarrow> card \<Rightarrow> string \<Rightarrow> game \<Rightarrow> game" where
  "effect_exchange db uid c target_username g =
     (let g1 = g\<lparr>used := used g @ [c]\<rparr>
      in if target_username \<noteq> [] then
           (let target_id = get_userid_by_username db target_username
            in if truthy target_id \<and> the target_id \<in> set (alive g1) \<and> the target_id \<noteq> uid then
                 g1\<lparr>hands := AList.update (the target_id) (hand_of (hands g1) uid)
                                (AList.update uid (hand_of (hands g1) (the target_id)) (hands g1)),
                    log := log g1 @ [get_username_by_id db uid @ '' exchanged hands with ''
                                     @ target_username @ ''.'']\<rparr>
               else g1\<lparr>log := log g1 @ [''Invalid target for EXCHANGE.'']\<rparr>)
         else g1\<lparr>log := log g1 @ [''No target provided for EXCHANGE.'']\<rparr>)"

text \<open>The dash of line 738 and the arrow of line 760, in UTF-8.\<close>

definition em_dash :: string where
  "em_dash = [char_of (226::nat), char_of (128::nat), char_of (148::nat)]"

definition right_arrow :: string where
  "right_arrow = [char_of (226::nat), char_of (134::nat), char_of (146::nat)]"

definition effect_judge :: "users_db \<Rightarrow> int \<Rightarrow> card \<Rightarrow> game \<Rightarrow> game" where
  "effect_judge db uid c g =
     g\<lparr>used := used g @ [c],
       log := log g @ [get_username_by_id db uid @ '' played JUDGE '' @ em_dash
                       @ '' vote phase would start (demo).'']\<rparr>"

definition effect_accusation :: "users_db \<Rightarrow> int \<Rightarrow> card \<Rightarrow> string \<Rightarrow> game \<Rightarrow> game" where
  "effect_accusation db uid c target_username g =
     (let g1 = g\<lparr>used := used g @ [c]\<rparr>
      in if target_username \<noteq> [] then
           (let target_id = get_userid_by_username db target_username
            in if truthy target_id \<and> the target_id \<in> set (alive g1) then
                 (if killer g1 = target_id then
                    g1\<lparr>alive := remove1 (the target_id) (alive g1),
                       used := used g1 @ hand_of (hands g1) (the target_id),
                       hands := AList.update (the target_id) [] (hands g1),
                       log := log g1 @ [get_username_by_id db uid
                                        @ '' used ACCUSATION and was correct! ''
                                        @ target_username @ '' eliminated.''],
                       killer := None,
                       finished := True,
                       winner := Some ''faithfuls''\<rparr>
                  else
                    g1\<lparr>alive := remove1 uid (alive g1),
                       used := used g1 @ hand_of (hands g1) uid,
                       hands := AList.update uid [] (hands g1),
                       log := log g1 @ [get_username_by_id db uid
                                        @ '' used ACCUSATION and was wrong '' @ right_arrow @ '' ''
                                        @ get_username_by_id db uid @ '' eliminated.'']\<rparr>)
               else g1\<lparr>log := log g1 @ [''Invalid target for ACCUSATION.'']\<rparr>)
         else g1\<lparr>log := log g1 @ [''No target provided for ACCUSATION.'']\<rparr>)"

definition effect_kill :: "users_db \<Rightarrow> int \<Rightarrow> card \<Rightarrow> string \<Rightarrow> game \<Rightarrow> game" where
  "effect_kill db uid c target_username g =
     (let g1 = g\<lparr>used := used g @ [c], killer := Some uid\<rparr>
      in if target_username \<noteq> [] then
           (let target_id = get_userid_by_username db target_username
            in if truthy target_id \<and> the target_id \<in> set (alive g1) \<and> the target_id \<noteq> uid then
                 (if map_of (shields_equipped g1) (the target_id) = Some True then
                    g1\<lparr>shields_equipped := AList.delete (the target_id) (shields_equipped g1),
                       hands := AList.update uid (hand_of (hands g1) uid @ [''shieldcard'']) (hands g1),
                       log := log g1 @ [get_username_by_id db uid @ '' attempted to kill ''
                                        @ target_username
                                        @ '' but shield broke and was taken by killer.'']\<rparr>
                  else
                    g1\<lparr>alive := remove1 (the target_id) (alive g1),
                       used := used g1 @ hand_of (hands g1) (the target_id),
                       hands := AList.update (the target_id) [] (hands g1),
                       log := log g1 @ [get_username_by_id db uid @ '' used KILL and eliminated ''
                                        @ target_username @ ''.'']\<rparr>)
               else g1\<lparr>log := log g1 @ [''Invalid target for KILL.'']\<rparr>)
         else g1\<lparr>log := log g1 @ [''No target provided for KILL.'']\<rparr>)"

definition effect_other :: "users_db \<Rightarrow> int \<Rightarrow> card \<Rightarrow> game \<Rightarrow> game" where
  "effect_other db uid c g =
     g\<lparr>used := used g @ [c],
       log := log g @ [get_username_by_id db uid @ '' played '' @ c @ '' (demo).'']\<rparr>"

definition card_effect :: "users_db \<Rightarrow> int \<Rightarrow> card \<Rightarrow> string \<Rightarrow> nat list \<Rightarrow> game \<Rightarrow> game" where
  "card_effect db uid c target_username rs g =
     (if c = ''statecard'' then effect_state db uid c g
      else if c = ''searchcard'' then effect_search db uid c rs g
      else if c = ''shieldcard'' then effect_shield db uid g
      else if c = ''takecard'' then effect_take db uid c target_username rs g
      else if c = ''exchangecard'' then effect_exchange db uid c target_username g
      else if c = ''judgecard'' then effect_judge db uid c g
      else if c = ''accusatecard'' then effect_accusation db uid c target_username g
      else if c = ''killcard'' then effect_kill db uid c target_username g
      else effect_other db uid c g)"

text \<open>The conditions of the two end checks (lines 794 and 797).\<close>

definition killer_alone :: "game \<Rightarrow> bool" where
  "killer_alone g = (truthy (killer g) \<and> winner_by_killer (alive g) (killer g))"

definition nobody_holds :: "game \<Rightarrow> bool" where
  "nobody_holds g =
     (killer g = None \<and> list_all (\<lambda>p. map_of (hands g) p = Some []) (players g))"

text \<open>The end checks of lines 794-799.\<close>

definition end_check :: "game \<Rightarrow> game" where
  "end_check g =
     (if killer_alone g then g\<lparr>finished := True, winner := Some ''killer''\<rparr>
      else if nobody_holds g then g\<lparr>finished := True, winner := Some ''faithfuls''\<rparr>
      else g)"

text \<open>Line 681: \<^verbatim>\<open>g['hands'][uid].remove(card)\<close>, for a card the hand holds.\<close>

definition remove_played :: "int \<Rightarrow> card \<Rightarrow> game \<Rightarrow> game" where
  "remove_played uid c g =
     g\<lparr>hands := AList.update uid (remove1 c (hand_of (hands g) uid)) (hands g)\<rparr>"

text \<open>
  \<open>play_card\<close> takes the logged-in user, the result of \<^verbatim>\<open>games.get(game_id)\<close>, and
  the two form fields. Every early \<^verbatim>\<open>return redirect(...)\<close> is an error value; the
  game is returned as the call leaves it.
\<close>

definition play_card :: "users_db \<Rightarrow> int option \<Rightarrow> game option \<Rightarrow> card option \<Rightarrow> string
    \<Rightarrow> nat list \<Rightarrow> play_error + game" where
  "play_card db user gopt card_field target_username rs =
     (case user of
        None \<Rightarrow> Inl Login_redirect
      | Some uid \<Rightarrow>
          (case gopt of
             None \<Rightarrow> Inl Not_found_or_not_player
           | Some g \<Rightarrow>
               if uid \<notin> set (players g) then Inl Not_found_or_not_player
               else if uid \<notin> set (alive g) then Inl Eliminated
               else (case card_field of
                       None \<Rightarrow> Inl Invalid_card_selection
                     | Some c \<Rightarrow>
                         if c = [] \<or> c \<notin> set (hand_of (hands g) uid) then Inl Invalid_card_selection
                         else Inr (end_check (card_effect db uid c target_username rs
                                (remove_played uid c g))))))"

text \<open>
  A KILL breaks a shield when its target resolves to an alive player other than the
  actor whose shield flag is set (the tests of lines 770-774).
\<close>

definition kill_breaks_shield :: "users_db \<Rightarrow> int \<Rightarrow> string \<Rightarrow> game \<Rightarrow> bool" where
  "kill_breaks_shield db uid target_username g =
     (target_username \<noteq> [] \<and> truthy (get_userid_by_username db target_username)
      \<and> the (get_userid_by_username db target_username) \<in> set (alive g)
      \<and> the (get_userid_by_username db target_username) \<noteq> uid
      \<and> map_of (shields_equipped g) (the (get_userid_by_username db target_username)) = Some True)"

subsection \<open>Runs of plays\<close>

text \<open>
  One request to \<^verbatim>\<open>play_card\<close> with everything it gets from outside. A rejected
  request leaves the game as it is, an accepted one leaves the game \<open>play_card\<close>
  returns.
\<close>

record play_request =
  pr_db :: users_db
  pr_user :: "int option"
  pr_card :: "card option"
  pr_target :: string
  pr_rand :: "nat list"

definition play_step :: "game \<Rightarrow> play_request \<Rightarrow> game" where
  "play_step g r =
     (case play_card (pr_db r) (pr_user r) (Some g) (pr_card r) (pr_target r) (pr_rand r) of
        Inl e \<Rightarrow> g
      | Inr g' \<Rightarrow> g')"

definition run_plays :: "game \<Rightarrow> play_request list \<Rightarrow> game" where
  "run_plays g rs = foldl play_step g rs"

text \<open>
  The copies of a card that can still be played, those in the deck and in the hands,
  and the stock that a session reached from a deal keeps: the deck outlasts the SEARCH
  cards in play, and the alive list outlasts the KILL and ACCUSATION cards in play.
\<close>

definition hands_count :: "card \<Rightarrow> (int \<times> card list) list \<Rightarrow> nat" where
  "hands_count c hs = sum_list (map (\<lambda>e. count_list (snd e) c) hs)"

definition in_play :: "card \<Rightarrow> game \<Rightarrow> nat" where
  "in_play c g = count_list (deck g) c + hands_count c (hands g)"


subsection \<open>Concrete sessions\<close>

text \<open>
  Five registered users and two deals. The random values \<open>rs_a\<close> make
  \<^verbatim>\<open>random.shuffle\<close> swap the deck positions 29 and 10, 28 and 0, 27 and 1, 26 and 11
  and nothing else, which deals \<open>game_a0\<close>; the values \<open>rs_b\<close> swap 30 and 15, 29 and 0,
  28 and 1, 27 and 2, 26 and 3, 25 and 4, which deals \<open>game_b0\<close> with the KILL card left
  in the deck.
\<close>

definition db5 :: users_db where
  "db5 = [(1, ''ann''), (2, ''bob''), (3, ''cat''), (4, ''dan''), (5, ''eve'')]"

definition rs_a :: "nat list" where
  "rs_a = [31, 30, 10, 0, 1, 11] @ rev [1..<26]"

definition rs_b :: "nat list" where
  "rs_b = [31, 15, 0, 1, 2, 3, 4] @ rev [1..<25]"

definition game_a0 :: game where
  "game_a0 =
     \<lparr>game_id = ''a1b2c3d4'', players = [1, 2, 3, 4, 5], alive = [1, 2, 3, 4, 5],
      hands = [(1, [''accusatecard'', ''killcard'', ''shieldcard'']),
               (2, [''statecard'', ''statecard'', ''shieldcard'']),
               (3, [''judgecard'', ''exchangecard'', ''exchangecard'']),
               (4, [''exchangecard'', ''exchangecard'', ''exchangecard'']),
               (5, [''takecard'', ''takecard'', ''takecard''])],
      deck = [''judgecard'', ''judgecard'', ''statecard'', ''statecard'', ''statecard'',
              ''searchcard'', ''searchcard'', ''searchcard'', ''searchcard'', ''searchcard'',
              ''judgecard'', ''judgecard'', ''shieldcard'', ''shieldcard'', ''shieldcard'',
              ''takecard'', ''takecard''],
      used = [], killer = Some 1, shields_equipped = [], log = [], started_at = 0,
      finished = False, winner = None\<rparr>"

definition game_b0 :: game where
  "game_b0 =
     \<lparr>game_id = ''e5f6a7b8'', players = [1, 2, 3, 4, 5], alive = [1, 2, 3, 4, 5],
      hands = [(1, [''accusatecard'', ''takecard'', ''statecard'']),
               (2, [''statecard'', ''statecard'', ''statecard'']),
               (3, [''statecard'', ''exchangecard'', ''exchangecard'']),
               (4, [''exchangecard'', ''exchangecard'', ''exchangecard'']),
               (5, [''takecard'', ''takecard'', ''takecard''])],
      deck = [''judgecard'', ''judgecard'', ''judgecard'', ''judgecard'', ''judgecard'',
              ''searchcard'', ''searchcard'', ''searchcard'', ''searchcard'', ''searchcard'',
              ''shieldcard'', ''shieldcard'', ''shieldcard'', ''shieldcard'', ''shieldcard'',
              ''killcard'', ''takecard''],
      used = [], killer = None, shields_equipped = [], log = [], started_at = 0,
      finished = False, winner = None\<rparr>"

text \<open>A run of plays that draw no random value; it stops at the first rejected one.\<close>

fun play_all :: "users_db \<Rightarrow> game \<Rightarrow> (int \<times> card \<times> string) list \<Rightarrow> play_error + game" where
  "play_all db g [] = Inr g"
| "play_all db g ((u, c, t) # ps) =
     (case play_card db (Some u) (Some g) (Some c) t [] of
        Inl e \<Rightarrow> Inl e
      | Inr g' \<Rightarrow> play_all db g' ps)"

text \<open>\<open>game_a0\<close> after ann has played SHIELD.\<close>

definition game_a_shielded :: game where
  "game_a_shielded =
     game_a0\<lparr>hands := [(1, [''accusatecard'', ''killcard'']),
                        (2, [''statecard'', ''statecard'', ''shieldcard'']),
                        (3, [''judgecard'', ''exchangecard'', ''exchangecard'']),
                        (4, [''exchangecard'', ''exchangecard'', ''exchangecard'']),
                        (5, [''takecard'', ''takecard'', ''takecard''])],
             shields_equipped := [(1, True)],
             log := [''ann equipped SHIELD.'']\<rparr>"

text \<open>\<open>game_a0\<close> after ann, the killer, has accused herself: the session is finished.\<close>

definition game_a_finished :: game where
  "game_a_finished =
     game_a0\<lparr>alive := [2, 3, 4, 5],
             hands := [(1, []),
                       (2, [''statecard'', ''statecard'', ''shieldcard'']),
                       (3, [''judgecard'', ''exchangecard'', ''exchangecard'']),
                       (4, [''exchangecard'', ''exchangecard'', ''exchangecard'']),
                       (5, [''takecard'', ''takecard'', ''takecard''])],
             used := [''accusatecard'', ''killcard'', ''shieldcard''],
             killer := None,
             log := [''ann used ACCUSATION and was correct! ann eliminated.''],
             finished := True, winner := Some ''faithfuls''\<rparr>"

text \<open>\<open>game_a_finished\<close> after bob has played STATE.\<close>

definition game_a_after_finish :: game where
  "game_a_after_finish =
     game_a_finished\<lparr>hands := [(1, []),
                       (2, [''statecard'', ''shieldcard'']),
                       (3, [''judgecard'', ''exchangecard'', ''exchangecard'']),
                       (4, [''exchangecard'', ''exchangecard'', ''exchangecard'']),
                       (5, [''takecard'', ''takecard'', ''takecard''])],
             used := [''accusatecard'', ''killcard'', ''shieldcard'', ''statecard''],
             log := [''ann used ACCUSATION and was correct! ann eliminated.'',
                     ''bob played STATE.'']\<rparr>"

text \<open>\<open>game_a0\<close> after bob has played his three cards (STATE, STATE, SHIELD).\<close>

definition game_a_bob_empty :: game where
  "game_a_bob_empty =
     game_a0\<lparr>hands := [(1, [''accusatecard'', ''killcard'', ''shieldcard'']),
                        (2, []),
                        (3, [''judgecard'', ''exchangecard'', ''exchangecard'']),
                        (4, [''exchangecard'', ''exchangecard'', ''exchangecard'']),
                        (5, [''takecard'', ''takecard'', ''takecard''])],
             used := [''statecard'', ''statecard''],
             shields_equipped := [(2, True)],
             log := [''bob played STATE.'', ''bob played STATE.'', ''bob equipped SHIELD.'']\<rparr>"

text \<open>\<open>game_a_bob_empty\<close> after eve has played TAKE on bob.\<close>

definition game_a_take_nothing :: game where
  "game_a_take_nothing =
     game_a_bob_empty\<lparr>hands := [(1, [''accusatecard'', ''killcard'', ''shieldcard'']),
                        (2, []),
                        (3, [''judgecard'', ''exchangecard'', ''exchangecard'']),
                        (4, [''exchangecard'', ''exchangecard'', ''exchangecard'']),
                        (5, [''takecard'', ''takecard''])],
             used := [''statecard'', ''statecard'', ''takecard''],
             log := [''bob played STATE.'', ''bob played STATE.'', ''bob equipped SHIELD.'',
                     ''bob had no cards to take.'']\<rparr>"

text \<open>
  \<open>game_b0\<close> after fourteen plays that name no target: every hand is empty except
  ann's, who still holds ACCUSATION.
\<close>

definition plays_b :: "(int \<times> card \<times> string) list" where
  "plays_b =
     [(1, ''takecard'', []), (1, ''statecard'', []),
      (2, ''statecard'', []), (2, ''statecard'', []), (2, ''statecard'', []),
      (3, ''statecard'', []), (3, ''exchangecard'', []), (3, ''exchangecard'', []),
      (4, ''exchangecard'', []), (4, ''exchangecard'', []), (4, ''exchangecard'', []),
      (5, ''takecard'', []), (5, ''takecard'', []), (5, ''takecard'', [])]"

definition game_b_last_card :: game where
  "game_b_last_card =
     game_b0\<lparr>hands := [(1, [''accusatecard'']), (2, []), (3, []), (4, []), (5, [])],
             used := [''takecard'', ''statecard'', ''statecard'', ''statecard'', ''statecard'',
                      ''statecard'', ''exchangecard'', ''exchangecard'', ''exchangecard'',
                      ''exchangecard'', ''exchangecard'', ''takecard'', ''takecard'', ''takecard''],
             log := [''No target provided for TAKE.'', ''ann played STATE.'',
                     ''bob played STATE.'', ''bob played STATE.'', ''bob played STATE.'',
                     ''cat played STATE.'', ''No target provided for EXCHANGE.'',
                     ''No target provided for EXCHANGE.'', ''No target provided for EXCHANGE.'',
                     ''No target provided for EXCHANGE.'', ''No target provided for EXCHANGE.'',
                     ''No target provided for TAKE.'', ''No target provided for TAKE.'',
                     ''No target provided for TAKE.'']\<rparr>"

text \<open>\<open>game_b_last_card\<close> after ann has accused bob.\<close>

definition game_b_wrong :: game where
  "game_b_wrong =
     game_b_last_card\<lparr>alive := [2, 3, 4, 5],
             hands := [(1, []), (2, []), (3, []), (4, []), (5, [])],
             used := used game_b_last_card @ [''accusatecard''],
             log := log game_b_last_card
                    @ [''ann used ACCUSATION and was wrong '' @ right_arrow @ '' ann eliminated.''],
             finished := True, winner := Some ''faithfuls''\<rparr>"




text \<open>Ann, bob, cat and dan join the queue; the state after eve has joined as the fifth.\<close>

definition joins4 :: "join_call list" where
  "joins4 =
     [\<lparr>jc_user = 1, jc_rand = [], jc_gid = ''00000001'', jc_now = 0\<rparr>,
      \<lparr>jc_user = 2, jc_rand = [], jc_gid = ''00000002'', jc_now = 0\<rparr>,
      \<lparr>jc_user = 3, jc_rand = [], jc_gid = ''00000003'', jc_now = 0\<rparr>,
      \<lparr>jc_user = 4, jc_rand = [], jc_gid = ''00000004'', jc_now = 0\<rparr>]"

definition state_after_match :: app_state where
  "state_after_match =
     \<lparr>matchmaking_queue = [], games = [(''a1b2c3d4'', game_a0)],
      user_to_game = [(1, ''a1b2c3d4''), (2, ''a1b2c3d4''), (3, ''a1b2c3d4''),
                      (4, ''a1b2c3d4''), (5, ''a1b2c3d4'')]\<rparr>"

section \<open>Auxiliary facts\<close>

subsection \<open>Shuffling keeps the number of cards\<close>

lemma length_shuffle_loop: "length (fst (shuffle_loop n rs xs)) = length xs"
  by (induction n arbitrary: rs xs) (simp_all add: Let_def)

lemma length_shuffle: "length (fst (shuffle rs xs)) = length xs"
  by (simp add: shuffle_def length_shuffle_loop)

lemma length_make_new_deck: "length (make_new_deck rs) = 32"
  by (simp add: make_new_deck_def length_shuffle base_deck_def)

subsection \<open>Counting the cards in the hands\<close>

lemma length_remove1_mem: "x \<in> set xs \<Longrightarrow> length (remove1 x xs) + 1 = length xs"
  by (induction xs) auto

lemma hands_total_update:
  "hands_total (AList.update k v hs) + length (hand_of hs k) = hands_total hs + length v"
  by (induction hs) (auto simp: hands_total_def hand_of_def)

lemma hand_of_update: "hand_of (AList.update k v hs) p = (if p = k then v else hand_of hs p)"
  by (simp add: hand_of_def update_conv')

lemma search_draw_count:
  "search_draw n d u draws rs = (d', u', draws') \<Longrightarrow>
   length d' + length u' + length draws' = length d + length u + length draws"
proof (induction n arbitrary: d u draws rs)
  case 0
  then show ?case by simp
next
  case (Suc n)
  show ?case
  proof (cases "d = []")
    case True
    note dnil = True
    show ?thesis
    proof (cases "fst (shuffle rs u) = []")
      case True
      with dnil Suc.prems have "search_draw n [] [] draws (snd (shuffle rs u)) = (d', u', draws')"
        by simp
      from Suc.IH [OF this] True dnil length_shuffle [of rs u] show ?thesis by simp
    next
      case False
      with dnil Suc.prems have
        "search_draw n (butlast (fst (shuffle rs u))) [] (draws @ [last (fst (shuffle rs u))])
           (snd (shuffle rs u)) = (d', u', draws')"
        by simp
      from Suc.IH [OF this] False dnil length_shuffle [of rs u] show ?thesis
        by (cases "fst (shuffle rs u)") auto
    qed
  next
    case False
    with Suc.prems have "search_draw n (butlast d) u (draws @ [last d]) rs = (d', u', draws')"
      by simp
    from Suc.IH [OF this] False show ?thesis by (cases d) auto
  qed
qed

lemma total_remove_played:
  assumes "c \<in> set (hand_of (hands g) uid)"
  shows "total_cards (remove_played uid c g) + 1 = total_cards g"
  using length_remove1_mem [OF assms]
    hands_total_update [of uid "remove1 c (hand_of (hands g) uid)" "hands g"]
  by (simp add: total_cards_def remove_played_def)

lemma total_effect_state: "total_cards (effect_state db uid c g) = total_cards g + 1"
  by (simp add: effect_state_def total_cards_def)

lemma total_effect_judge: "total_cards (effect_judge db uid c g) = total_cards g + 1"
  by (simp add: effect_judge_def total_cards_def)

lemma total_effect_other: "total_cards (effect_other db uid c g) = total_cards g + 1"
  by (simp add: effect_other_def total_cards_def)

lemma total_effect_shield: "total_cards (effect_shield db uid g) = total_cards g"
  by (simp add: effect_shield_def total_cards_def)

lemma total_effect_search: "total_cards (effect_search db uid c rs g) = total_cards g + 1"
proof -
  obtain d u draws where sd: "search_draw 3 (deck g) (used g @ [c]) [] rs = (d, u, draws)"
    by (cases "search_draw 3 (deck g) (used g @ [c]) [] rs") auto
  from search_draw_count [OF sd]
  have "length d + length u + length draws = length (deck g) + length (used g) + 1" by simp
  with sd hands_total_update [of uid "hand_of (hands g) uid @ draws" "hands g"]
  show ?thesis by (simp add: effect_search_def total_cards_def)
qed

lemma total_eliminate:
  "length d + hands_total (AList.update p [] hs) + length (u @ hand_of hs p)
   = length d + hands_total hs + length u"
  using hands_total_update [of p "[]" hs] by simp

lemma total_effect_accusation:
  "total_cards (effect_accusation db uid c tu g) = total_cards g + 1"
  using total_eliminate [of "deck g" _ "hands g" "used g @ [c]"]
  by (simp add: effect_accusation_def total_cards_def Let_def)

lemma total_effect_kill:
  "total_cards (effect_kill db uid c tu g) =
     total_cards g + 1 + (if kill_breaks_shield db uid tu g then 1 else 0)"
  using total_eliminate [of "deck g" _ "hands g" "used g @ [c]"]
    hands_total_update [of uid "hand_of (hands g) uid @ [''shieldcard'']" "hands g"]
  by (simp add: effect_kill_def total_cards_def Let_def kill_breaks_shield_def)

lemma total_effect_exchange:
  "total_cards (effect_exchange db uid c tu g) = total_cards g + 1"
proof -
  have "hands_total (AList.update t (hand_of (hands g) uid)
            (AList.update uid (hand_of (hands g) t) (hands g))) = hands_total (hands g)"
    if "t \<noteq> uid" for t
    using that hands_total_update [of uid "hand_of (hands g) t" "hands g"]
      hands_total_update [of t "hand_of (hands g) uid" "AList.update uid (hand_of (hands g) t) (hands g)"]
    by (simp add: hand_of_update)
  then show ?thesis
    by (simp add: effect_exchange_def total_cards_def Let_def)
qed

lemma total_effect_take:
  "total_cards (effect_take db uid c tu rs g) = total_cards g + 1"
proof -
  have "hands_total (AList.update uid (hand_of (AList.update t (remove1 x (hand_of (hands g) t)) (hands g)) uid @ [x])
            (AList.update t (remove1 x (hand_of (hands g) t)) (hands g))) = hands_total (hands g)"
    if "t \<noteq> uid" and "x \<in> set (hand_of (hands g) t)" for t x
    using that(1) length_remove1_mem [OF that(2)]
      hands_total_update [of t "remove1 x (hand_of (hands g) t)" "hands g"]
      hands_total_update [of uid "hand_of (hands g) uid @ [x]"
         "AList.update t (remove1 x (hand_of (hands g) t)) (hands g)"]
    by (simp add: hand_of_update)
  moreover have "th ! randbelow (length th) rs \<in> set th" if "th \<noteq> []" for th :: "card list"
    using that by (cases rs) (simp_all add: randbelow_def)
  ultimately show ?thesis
    by (simp add: effect_take_def total_cards_def Let_def)
qed

lemma total_card_effect:
  "total_cards (card_effect db uid c tu rs g) =
     total_cards g + (if c = ''shieldcard'' then 0 else 1)
       + (if c = ''killcard'' \<and> kill_breaks_shield db uid tu g then 1 else 0)"
  by (simp add: card_effect_def total_effect_state total_effect_judge total_effect_other
      total_effect_shield total_effect_search total_effect_accusation total_effect_kill
      total_effect_exchange total_effect_take)

lemma total_end_check: "total_cards (end_check g) = total_cards g"
  by (simp add: end_check_def total_cards_def)

lemma play_card_Inr:
  "play_card db user (Some g) cf tu rs = Inr g' \<longleftrightarrow>
     (\<exists>uid c. user = Some uid \<and> cf = Some c \<and> uid \<in> set (players g) \<and> uid \<in> set (alive g)
        \<and> c \<noteq> [] \<and> c \<in> set (hand_of (hands g) uid)
        \<and> g' = end_check (card_effect db uid c tu rs (remove_played uid c g)))"
  by (auto simp: play_card_def split: option.splits)

subsection \<open>Dealing\<close>

lemma deal_count:
  "distinct pids \<Longrightarrow> set pids \<inter> fst ` set hs = {} \<Longrightarrow> deal pids hs d = Some (hs', d') \<Longrightarrow>
   hands_total hs' + length d' = hands_total hs + length d"
proof (induction pids arbitrary: hs d)
  case Nil
  then show ?case by simp
next
  case (Cons pid pids)
  from Cons.prems(3) have len: "3 \<le> length d"
    and rec: "deal pids (AList.update pid (take 3 (rev d)) hs) (take (length d - 3) d) = Some (hs', d')"
    by (auto split: if_splits)
  from Cons.prems(2) have "map_of hs pid = None"
    by (simp add: map_of_eq_None_iff)
  then have "hand_of hs pid = []" by (simp add: hand_of_def)
  with hands_total_update [of pid "take 3 (rev d)" hs] len
  have upd: "hands_total (AList.update pid (take 3 (rev d)) hs) = hands_total hs + 3" by simp
  from Cons.prems(1,2)
  have "set pids \<inter> fst ` set (AList.update pid (take 3 (rev d)) hs) = {}"
    by (auto simp: dom_update)
  from Cons.IH [OF _ this rec] Cons.prems(1) upd len show ?case by simp
qed

lemma deal_Some: "3 * length pids \<le> length d \<Longrightarrow> \<exists>r. deal pids hs d = Some r"
  by (induction pids arbitrary: hs d) auto

lemma new_game_total:
  assumes "distinct ps" and "new_game ps rs gid now = Some g"
  shows "total_cards g = 32"
proof -
  from assms(2) obtain hs d where d: "deal ps [] (make_new_deck rs) = Some (hs, d)"
    and g: "hands g = hs" "deck g = d" "used g = []"
    by (auto simp: new_game_def split: option.splits)
  from deal_count [OF assms(1) _ d] have "hands_total hs + length d = 32"
    by (simp add: hands_total_def length_make_new_deck)
  with g show ?thesis by (simp add: total_cards_def)
qed

lemma kill_breaks_shield_remove_played [simp]:
  "kill_breaks_shield db uid tu (remove_played p c g) = kill_breaks_shield db uid tu g"
  by (simp add: kill_breaks_shield_def remove_played_def)

subsection \<open>The concrete sessions, step by step\<close>

lemma deal_a: "new_game [1, 2, 3, 4, 5] rs_a ''a1b2c3d4'' 0 = Some game_a0"
  by code_simp

lemma deal_b: "new_game [1, 2, 3, 4, 5] rs_b ''e5f6a7b8'' 0 = Some game_b0"
  by code_simp

lemma play_a_shield:
  "play_card db5 (Some 1) (Some game_a0) (Some ''shieldcard'') [] [] = Inr game_a_shielded"
  by code_simp

lemma play_a_self_accuse:
  "play_card db5 (Some 1) (Some game_a0) (Some ''accusatecard'') ''ann'' [] = Inr game_a_finished"
  by code_simp

lemma play_a_after_finish:
  "play_card db5 (Some 2) (Some game_a_finished) (Some ''statecard'') [] [] = Inr game_a_after_finish"
  by code_simp

lemma run_a_bob:
  "play_all db5 game_a0 [(2, ''statecard'', []), (2, ''statecard'', []), (2, ''shieldcard'', [])]
     = Inr game_a_bob_empty"
  by code_simp

lemma play_a_take_nothing:
  "play_card db5 (Some 5) (Some game_a_bob_empty) (Some ''takecard'') ''bob'' [] = Inr game_a_take_nothing"
  by code_simp

lemma run_b: "play_all db5 game_b0 plays_b = Inr game_b_last_card"
  by code_simp

lemma play_b_wrong:
  "play_card db5 (Some 1) (Some game_b_last_card) (Some ''accusatecard'') ''bob'' [] = Inr game_b_wrong"
  by code_simp



subsection \<open>The finished flag passes through every effect\<close>

lemma remove_played_finished:
  "remove_played uid c (g\<lparr>finished := b\<rparr>) = (remove_played uid c g)\<lparr>finished := b\<rparr>"
  by (simp add: remove_played_def)

lemma effect_search_finished:
  "effect_search db uid c rs (g\<lparr>finished := True\<rparr>) = (effect_search db uid c rs g)\<lparr>finished := True\<rparr>"
  by (simp add: effect_search_def split: prod.splits)

lemma effect_take_finished:
  "effect_take db uid c tu rs (g\<lparr>finished := True\<rparr>) = (effect_take db uid c tu rs g)\<lparr>finished := True\<rparr>"
  by (simp add: effect_take_def Let_def)

lemma effect_exchange_finished:
  "effect_exchange db uid c tu (g\<lparr>finished := True\<rparr>) = (effect_exchange db uid c tu g)\<lparr>finished := True\<rparr>"
  by (simp add: effect_exchange_def Let_def)

lemma effect_accusation_finished:
  "effect_accusation db uid c tu (g\<lparr>finished := True\<rparr>) = (effect_accusation db uid c tu g)\<lparr>finished := True\<rparr>"
  by (simp add: effect_accusation_def Let_def)

lemma effect_kill_finished:
  "effect_kill db uid c tu (g\<lparr>finished := True\<rparr>) = (effect_kill db uid c tu g)\<lparr>finished := True\<rparr>"
  by (simp add: effect_kill_def Let_def)

lemma card_effect_finished:
  "card_effect db uid c tu rs (g\<lparr>finished := True\<rparr>)
     = (card_effect db uid c tu rs g)\<lparr>finished := True\<rparr>"
  by (simp add: card_effect_def effect_state_def effect_search_finished effect_shield_def
      effect_take_finished effect_exchange_finished effect_judge_def effect_accusation_finished
      effect_kill_finished effect_other_def)

lemma end_check_finished:
  "end_check (g\<lparr>finished := True\<rparr>) = (end_check g)\<lparr>finished := True\<rparr>"
  by (simp add: end_check_def killer_alone_def nobody_holds_def)

subsection \<open>An accepted play, field by field\<close>

lemma play_card_accepted:
  assumes "uid \<in> set (players g)" and "uid \<in> set (alive g)"
    and "c \<in> set (hand_of (hands g) uid)" and "c \<noteq> []"
  shows "play_card db (Some uid) (Some g) (Some c) tu rs
           = Inr (end_check (card_effect db uid c tu rs (remove_played uid c g)))"
  using assms by (simp add: play_card_def)

lemma card_effect_cards:
  "card_effect db uid ''statecard'' tu rs g = effect_state db uid ''statecard'' g"
  "card_effect db uid ''searchcard'' tu rs g = effect_search db uid ''searchcard'' rs g"
  "card_effect db uid ''shieldcard'' tu rs g = effect_shield db uid g"
  "card_effect db uid ''takecard'' tu rs g = effect_take db uid ''takecard'' tu rs g"
  "card_effect db uid ''exchangecard'' tu rs g = effect_exchange db uid ''exchangecard'' tu g"
  "card_effect db uid ''judgecard'' tu rs g = effect_judge db uid ''judgecard'' g"
  "card_effect db uid ''accusatecard'' tu rs g = effect_accusation db uid ''accusatecard'' tu g"
  "card_effect db uid ''killcard'' tu rs g = effect_kill db uid ''killcard'' tu g"
  by (simp_all add: card_effect_def)

lemma remove_played_fields [simp]:
  "players (remove_played uid c g) = players g"
  "alive (remove_played uid c g) = alive g"
  "deck (remove_played uid c g) = deck g"
  "used (remove_played uid c g) = used g"
  "killer (remove_played uid c g) = killer g"
  "shields_equipped (remove_played uid c g) = shields_equipped g"
  "log (remove_played uid c g) = log g"
  "finished (remove_played uid c g) = finished g"
  "winner (remove_played uid c g) = winner g"
  "hands (remove_played uid c g) = AList.update uid (remove1 c (hand_of (hands g) uid)) (hands g)"
  by (simp_all add: remove_played_def)

lemma end_check_fields [simp]:
  "players (end_check g) = players g"
  "alive (end_check g) = alive g"
  "hands (end_check g) = hands g"
  "deck (end_check g) = deck g"
  "used (end_check g) = used g"
  "killer (end_check g) = killer g"
  "shields_equipped (end_check g) = shields_equipped g"
  "log (end_check g) = log g"
  by (simp_all add: end_check_def)

lemma end_check_finished_iff:
  "finished (end_check g) \<longleftrightarrow> finished g \<or> killer_alone g \<or> nobody_holds g"
  by (simp add: end_check_def)

lemma end_check_winner:
  "winner (end_check g) =
     (if killer_alone g then Some ''killer''
      else if nobody_holds g then Some ''faithfuls'' else winner g)"
  by (simp add: end_check_def)


subsection \<open>The effect of each targeted card, branch by branch\<close>

lemma effect_accusation_correct:
  assumes "tu \<noteq> []" and "get_userid_by_username db tu = Some t" and "t \<noteq> 0"
    and "t \<in> set (alive g)" and "killer g = Some t"
  shows "effect_accusation db uid c tu g =
           g\<lparr>alive := remove1 t (alive g),
             used := used g @ [c] @ hand_of (hands g) t,
             hands := AList.update t [] (hands g),
             log := log g @ [get_username_by_id db uid @ '' used ACCUSATION and was correct! ''
                             @ tu @ '' eliminated.''],
             killer := None, finished := True, winner := Some ''faithfuls''\<rparr>"
  using assms by (simp add: effect_accusation_def Let_def truthy_def)

lemma effect_accusation_wrong:
  assumes "tu \<noteq> []" and "get_userid_by_username db tu = Some t" and "t \<noteq> 0"
    and "t \<in> set (alive g)" and "killer g \<noteq> Some t"
  shows "effect_accusation db uid c tu g =
           g\<lparr>alive := remove1 uid (alive g),
             used := used g @ [c] @ hand_of (hands g) uid,
             hands := AList.update uid [] (hands g),
             log := log g @ [get_username_by_id db uid @ '' used ACCUSATION and was wrong ''
                             @ right_arrow @ '' '' @ get_username_by_id db uid
                             @ '' eliminated.'']\<rparr>"
  using assms by (simp add: effect_accusation_def Let_def truthy_def)

lemma effect_kill_killer: "killer (effect_kill db uid c tu g) = Some uid"
  by (simp add: effect_kill_def Let_def)

lemma effect_kill_break:
  assumes "tu \<noteq> []" and "get_userid_by_username db tu = Some t" and "t \<noteq> 0"
    and "t \<in> set (alive g)" and "t \<noteq> uid" and "map_of (shields_equipped g) t = Some True"
  shows "effect_kill db uid c tu g =
           g\<lparr>used := used g @ [c], killer := Some uid,
             shields_equipped := AList.delete t (shields_equipped g),
             hands := AList.update uid (hand_of (hands g) uid @ [''shieldcard'']) (hands g),
             log := log g @ [get_username_by_id db uid @ '' attempted to kill '' @ tu
                             @ '' but shield broke and was taken by killer.'']\<rparr>"
  using assms by (simp add: effect_kill_def Let_def truthy_def)

lemma effect_kill_eliminate:
  assumes "tu \<noteq> []" and "get_userid_by_username db tu = Some t" and "t \<noteq> 0"
    and "t \<in> set (alive g)" and "t \<noteq> uid" and "map_of (shields_equipped g) t \<noteq> Some True"
  shows "effect_kill db uid c tu g =
           g\<lparr>used := used g @ [c] @ hand_of (hands g) t, killer := Some uid,
             alive := remove1 t (alive g),
             hands := AList.update t [] (hands g),
             log := log g @ [get_username_by_id db uid @ '' used KILL and eliminated ''
                             @ tu @ ''.'']\<rparr>"
  using assms by (simp add: effect_kill_def Let_def truthy_def)

lemma effect_take_empty:
  assumes "tu \<noteq> []" and "get_userid_by_username db tu = Some t" and "t \<noteq> 0"
    and "t \<in> set (alive g)" and "t \<noteq> uid" and "hand_of (hands g) t = []"
  shows "effect_take db uid c tu rs g =
           g\<lparr>used := used g @ [c], log := log g @ [tu @ '' had no cards to take.'']\<rparr>"
  using assms by (simp add: effect_take_def Let_def truthy_def)

lemma effect_exchange_valid:
  assumes "tu \<noteq> []" and "get_userid_by_username db tu = Some t" and "t \<noteq> 0"
    and "t \<in> set (alive g)" and "t \<noteq> uid"
  shows "effect_exchange db uid c tu g =
           g\<lparr>used := used g @ [c],
             hands := AList.update t (hand_of (hands g) uid)
                        (AList.update uid (hand_of (hands g) t) (hands g)),
             log := log g @ [get_username_by_id db uid @ '' exchanged hands with ''
                             @ tu @ ''.'']\<rparr>"
  using assms by (simp add: effect_exchange_def Let_def truthy_def)

subsection \<open>What an effect does to the shield flags and to the outcome\<close>

lemma effect_search_shields:
  "shields_equipped (effect_search db uid c rs g) = shields_equipped g"
  by (simp add: effect_search_def split: prod.splits)

lemma effect_take_shields:
  "shields_equipped (effect_take db uid c tu rs g) = shields_equipped g"
  by (simp add: effect_take_def Let_def)

lemma effect_exchange_shields:
  "shields_equipped (effect_exchange db uid c tu g) = shields_equipped g"
  by (simp add: effect_exchange_def Let_def)

lemma effect_accusation_shields:
  "shields_equipped (effect_accusation db uid c tu g) = shields_equipped g"
  by (simp add: effect_accusation_def Let_def)

lemma effect_kill_shields:
  "shields_equipped (effect_kill db uid c tu g) =
     (if kill_breaks_shield db uid tu g
      then AList.delete (the (get_userid_by_username db tu)) (shields_equipped g)
      else shields_equipped g)"
  by (simp add: effect_kill_def Let_def kill_breaks_shield_def)

lemma card_effect_shields:
  "shields_equipped (card_effect db uid c tu rs g) =
     (if c = ''shieldcard'' then AList.update uid True (shields_equipped g)
      else if c = ''killcard'' \<and> kill_breaks_shield db uid tu g
      then AList.delete (the (get_userid_by_username db tu)) (shields_equipped g)
      else shields_equipped g)"
  by (simp add: card_effect_def effect_state_def effect_search_shields effect_shield_def
      effect_take_shields effect_exchange_shields effect_judge_def effect_accusation_shields
      effect_kill_shields effect_other_def)







subsection \<open>Joining the queue\<close>

lemma new_game_Some:
  assumes "length ps = 5"
  shows "\<exists>g. new_game ps rs gid now = Some g"
proof -
  from assms have "3 * length ps \<le> length (make_new_deck rs)"
    by (simp add: length_make_new_deck)
  from deal_Some [OF this, of "[]"] show ?thesis
    by (auto simp: new_game_def)
qed

lemma new_game_fields:
  assumes "new_game ps rs gid now = Some g"
  shows "players g = ps" and "alive g = ps" and "game_id g = gid"
  using assms by (auto simp: new_game_def split: option.splits)

lemma join_queue_queued:
  assumes "uid \<in> set (matchmaking_queue st)" and "length (matchmaking_queue st) < MATCH_SIZE"
  shows "join_queue (Some uid) rs gid now st = (Not_started, st)"
  using assms by (simp add: join_queue_def)

lemma join_queue_short:
  assumes "uid \<notin> set (matchmaking_queue st)" and "length (matchmaking_queue st) + 1 < MATCH_SIZE"
  shows "join_queue (Some uid) rs gid now st
           = (Not_started, st\<lparr>matchmaking_queue := matchmaking_queue st @ [uid]\<rparr>)"
  using assms by (simp add: join_queue_def)

lemma join_queue_full:
  assumes "uid \<notin> set (matchmaking_queue st)" and "length (matchmaking_queue st) + 1 = MATCH_SIZE"
    and "new_game (matchmaking_queue st @ [uid]) rs gid now = Some g"
  shows "join_queue (Some uid) rs gid now st
           = (Started gid,
              st\<lparr>matchmaking_queue := [],
                 games := AList.update gid g (games st),
                 user_to_game := fold (\<lambda>pid m. AList.update pid gid m)
                                   (matchmaking_queue st @ [uid]) (user_to_game st)\<rparr>)"
  using assms new_game_fields(3) [OF assms(3)]
  by (simp add: join_queue_def create_game_for_players_def)

lemma join_step_inv:
  assumes "distinct (matchmaking_queue st)" and "length (matchmaking_queue st) < MATCH_SIZE"
  shows "distinct (matchmaking_queue (join_step st c))
         \<and> length (matchmaking_queue (join_step st c)) < MATCH_SIZE"
proof (cases "jc_user c \<in> set (matchmaking_queue st)")
  case True
  with assms show ?thesis by (simp add: join_step_def join_queue_queued)
next
  case False
  show ?thesis
  proof (cases "length (matchmaking_queue st) + 1 < MATCH_SIZE")
    case True
    with False assms show ?thesis by (simp add: join_step_def join_queue_short)
  next
    case full: False
    with assms have len: "length (matchmaking_queue st) + 1 = MATCH_SIZE" by simp
    then have "length (matchmaking_queue st @ [jc_user c]) = 5" by (simp add: MATCH_SIZE_def)
    from new_game_Some [OF this] obtain g where
      "new_game (matchmaking_queue st @ [jc_user c]) (jc_rand c) (jc_gid c) (jc_now c) = Some g"
      by blast
    from join_queue_full [OF False len this] show ?thesis
      by (simp add: join_step_def MATCH_SIZE_def)
  qed
qed

lemma run_joins_snoc: "run_joins (cs @ [c]) = join_step (run_joins cs) c"
  by (simp add: run_joins_def)

lemma run_joins_inv:
  "distinct (matchmaking_queue (run_joins cs))
   \<and> length (matchmaking_queue (run_joins cs)) < MATCH_SIZE"
proof (induction cs rule: rev_induct)
  case Nil
  show ?case by (simp add: run_joins_def initial_state_def MATCH_SIZE_def)
next
  case (snoc c cs)
  then show ?case using join_step_inv [of "run_joins cs" c] by (simp add: run_joins_snoc)
qed

lemma run_four_joins:
  assumes "distinct [a, b, c, d]"
  shows "run_joins [\<lparr>jc_user = a, jc_rand = ra, jc_gid = ia, jc_now = na\<rparr>,
                    \<lparr>jc_user = b, jc_rand = rb, jc_gid = ib, jc_now = nb\<rparr>,
                    \<lparr>jc_user = c, jc_rand = rc, jc_gid = ic, jc_now = nc\<rparr>,
                    \<lparr>jc_user = d, jc_rand = rd, jc_gid = id', jc_now = nd\<rparr>]
         = \<lparr>matchmaking_queue = [a, b, c, d], games = [], user_to_game = []\<rparr>"
  using assms
  by (simp add: run_joins_def join_step_def join_queue_def initial_state_def MATCH_SIZE_def)

lemma run_joins4:
  "run_joins joins4 = \<lparr>matchmaking_queue = [1, 2, 3, 4], games = [], user_to_game = []\<rparr>"
  by code_simp

lemma run_joins1:
  "run_joins [\<lparr>jc_user = 1, jc_rand = [], jc_gid = ''00000001'', jc_now = 0\<rparr>]
     = \<lparr>matchmaking_queue = [1], games = [], user_to_game = []\<rparr>"
  by code_simp

subsection \<open>Counting the copies of a card\<close>









subsection \<open>What an effect does to the stock\<close>











subsection \<open>The stock is kept by every play\<close>




lemma in_play_end_check [simp]: "in_play k (end_check g) = in_play k g"
  by (simp add: in_play_def)


lemma run_plays_snoc: "run_plays g (rs @ [r]) = play_step (run_plays g rs) r"
  by (simp add: run_plays_def)



section \<open>Card count\<close>

text \<open>
  Claim C1, as amended. The spec asks that deck, hands and used pile always hold 32
  cards together and that no play changes the sum. The code keeps an equipped shield
  outside all three, so what holds is this account: a session freshly created for
  distinct players holds 32 cards; an accepted play leaves the sum as it is, except
  that playing SHIELD lowers it by one and a KILL that breaks a shield raises it by one
  (eliminations, TAKE, EXCHANGE, SEARCH with its reshuffle, and every other play keep
  the sum).
\<close>

theorem card_count_accounting:
  "(distinct ps \<and> new_game ps rs0 gid now = Some g0 \<longrightarrow> total_cards g0 = 32) \<and>
   (play_card db (Some uid) (Some g) cf tu rs = Inr g' \<longrightarrow>
      total_cards g' + (if cf = Some ''shieldcard'' then 1 else 0)
        = total_cards g
          + (if cf = Some ''killcard'' \<and> kill_breaks_shield db uid tu g then 1 else 0))"
proof (intro conjI impI)
  assume "distinct ps \<and> new_game ps rs0 gid now = Some g0"
  then show "total_cards g0 = 32" using new_game_total by blast
next
  assume "play_card db (Some uid) (Some g) cf tu rs = Inr g'"
  then obtain c where cf: "cf = Some c" and held: "c \<in> set (hand_of (hands g) uid)"
    and g': "g' = end_check (card_effect db uid c tu rs (remove_played uid c g))"
    by (auto simp: play_card_Inr)
  from total_remove_played [OF held] show
    "total_cards g' + (if cf = Some ''shieldcard'' then 1 else 0)
        = total_cards g
          + (if cf = Some ''killcard'' \<and> kill_breaks_shield db uid tu g then 1 else 0)"
    by (auto simp: cf g' total_end_check total_card_effect)
qed

text \<open>
  The account at the deal of \<open>game_a0\<close> and at bob's STATE in the finished session:
  32 cards before and after.
\<close>

theorem card_count_accounting_witness:
  "distinct [1, 2, 3, 4, 5 :: int]
   \<and> new_game [1, 2, 3, 4, 5] rs_a ''a1b2c3d4'' 0 = Some game_a0
   \<and> total_cards game_a0 = 32
   \<and> play_card db5 (Some 2) (Some game_a_finished) (Some ''statecard'') [] [] = Inr game_a_after_finish
   \<and> total_cards game_a_after_finish = total_cards game_a_finished"
  using card_count_accounting [of "[1, 2, 3, 4, 5]" rs_a "''a1b2c3d4''" 0 game_a0
      db5 2 game_a_finished "Some ''statecard''" "[]" "[]" game_a_after_finish]
  by (simp add: deal_a play_a_after_finish)

text \<open>
  The claim as stated fails at the first SHIELD: ann plays it in the freshly dealt
  \<open>game_a0\<close> and 31 cards are left in deck, hands and used pile.
\<close>

theorem card_count_counterexample:
  "new_game [1, 2, 3, 4, 5] rs_a ''a1b2c3d4'' 0 = Some game_a0
   \<and> total_cards game_a0 = 32
   \<and> play_card db5 (Some 1) (Some game_a0) (Some ''shieldcard'') [] [] = Inr game_a_shielded
   \<and> total_cards game_a_shielded = 31"
proof -
  have "total_cards game_a0 = 32" by code_simp
  moreover have "total_cards game_a_shielded = 31" by code_simp
  ultimately show ?thesis by (simp add: deal_a play_a_shield)
qed

section \<open>Plays on a finished session\<close>

text \<open>
  Claim C2, as amended. The spec asks that a play on a finished session is rejected
  before any mutation. \<open>play_card\<close> never reads the finished flag: a call on a finished
  session is rejected exactly when the same call on the same session, unfinished,
  would be (no user, not a participant, eliminated, card not held), and otherwise it
  is carried out as on the unfinished session; the flag stays true.
\<close>

theorem finished_flag_not_consulted:
  "play_card db user (Some (g\<lparr>finished := True\<rparr>)) cf tu rs
     = map_sum id (\<lambda>g'. g'\<lparr>finished := True\<rparr>) (play_card db user (Some g) cf tu rs)"
  by (simp add: play_card_def remove_played_finished card_effect_finished end_check_finished
      split: option.splits)

text \<open>Bob's STATE in the session that ann's accusation has finished.\<close>

theorem finished_flag_not_consulted_witness:
  "play_card db5 (Some 2) (Some (game_a_finished\<lparr>finished := True\<rparr>)) (Some ''statecard'') [] []
     = Inr (game_a_after_finish\<lparr>finished := True\<rparr>)"
  using finished_flag_not_consulted [of db5 "Some 2" game_a_finished "Some ''statecard''" "[]" "[]"]
  by (simp add: play_a_after_finish)

text \<open>
  The claim as stated fails there. The session \<open>game_a_finished\<close> is reached from a
  fresh deal by ann's accusation of herself and is finished; bob's play on it is
  accepted, his hand loses the card and the used pile gains it.
\<close>

theorem finished_session_counterexample:
  "new_game [1, 2, 3, 4, 5] rs_a ''a1b2c3d4'' 0 = Some game_a0
   \<and> play_card db5 (Some 1) (Some game_a0) (Some ''accusatecard'') ''ann'' [] = Inr game_a_finished
   \<and> finished game_a_finished
   \<and> play_card db5 (Some 2) (Some game_a_finished) (Some ''statecard'') [] [] = Inr game_a_after_finish
   \<and> hand_of (hands game_a_finished) 2 = [''statecard'', ''statecard'', ''shieldcard'']
   \<and> hand_of (hands game_a_after_finish) 2 = [''statecard'', ''shieldcard'']
   \<and> used game_a_finished = [''accusatecard'', ''killcard'', ''shieldcard'']
   \<and> used game_a_after_finish = [''accusatecard'', ''killcard'', ''shieldcard'', ''statecard'']"
proof -
  have "finished game_a_finished" by code_simp
  moreover have "hand_of (hands game_a_finished) 2 = [''statecard'', ''statecard'', ''shieldcard'']"
    by code_simp
  moreover have "hand_of (hands game_a_after_finish) 2 = [''statecard'', ''shieldcard'']"
    by code_simp
  moreover have "used game_a_finished = [''accusatecard'', ''killcard'', ''shieldcard'']"
    by code_simp
  moreover have "used game_a_after_finish
      = [''accusatecard'', ''killcard'', ''shieldcard'', ''statecard'']"
    by code_simp
  ultimately show ?thesis using deal_a play_a_self_accuse play_a_after_finish by blast
qed

section \<open>ACCUSATION\<close>

text \<open>
  Claim C3, as amended. An alive participant who holds ACCUSATION plays it on an alive
  target. If the target is the current killer, the target leaves the alive list, the
  target's hand goes to the used pile and is emptied, the killer becomes none, and the
  session is finished with winner faithfuls. Otherwise the accuser leaves the alive
  list, the accuser's hand goes to the used pile, and the killer is unchanged; the
  session then goes on with its finished flag and winner as they were unless an end
  check fires on the new state: the killer is the only alive participant (winner
  killer), or there is no killer and every participant's hand is empty (winner
  faithfuls). The spec's "the game continues if other players remain alive" does not
  hold in the second of these cases.
\<close>

theorem accusation_resolution:
  assumes part: "uid \<in> set (players g)" and live: "uid \<in> set (alive g)"
    and held: "''accusatecard'' \<in> set (hand_of (hands g) uid)"
    and named: "tu \<noteq> []" and found: "get_userid_by_username db tu = Some t"
    and nonzero: "t \<noteq> 0" and target_alive: "t \<in> set (alive g)"
  shows "\<exists>g'. play_card db (Some uid) (Some g) (Some ''accusatecard'') tu rs = Inr g' \<and>
     (if killer g = Some t then
        alive g' = remove1 t (alive g)
        \<and> used g' = used g @ [''accusatecard'']
                      @ (if t = uid then remove1 ''accusatecard'' (hand_of (hands g) uid)
                         else hand_of (hands g) t)
        \<and> hand_of (hands g') t = []
        \<and> killer g' = None \<and> finished g' \<and> winner g' = Some ''faithfuls''
      else
        alive g' = remove1 uid (alive g)
        \<and> used g' = used g @ [''accusatecard''] @ remove1 ''accusatecard'' (hand_of (hands g) uid)
        \<and> hands g' = AList.update uid [] (hands g)
        \<and> killer g' = killer g
        \<and> finished g' = (finished g \<or> killer_alone g' \<or> nobody_holds g')
        \<and> winner g' = (if killer_alone g' then Some ''killer''
                        else if nobody_holds g' then Some ''faithfuls'' else winner g))"
proof -
  let ?g0 = "remove_played uid ''accusatecard'' g"
  let ?e = "effect_accusation db uid ''accusatecard'' tu ?g0"
  have play: "play_card db (Some uid) (Some g) (Some ''accusatecard'') tu rs = Inr (end_check ?e)"
    using play_card_accepted [OF part live held] by (simp add: card_effect_cards)
  show ?thesis
  proof (cases "killer g = Some t")
    case True
    have e: "?e = ?g0\<lparr>alive := remove1 t (alive g),
                used := used g @ [''accusatecard''] @ hand_of (hands ?g0) t,
                hands := AList.update t [] (hands ?g0),
                log := log g @ [get_username_by_id db uid @ '' used ACCUSATION and was correct! ''
                                 @ tu @ '' eliminated.''],
                killer := None, finished := True, winner := Some ''faithfuls''\<rparr>"
      using True named found nonzero target_alive
      by (simp add: effect_accusation_def Let_def truthy_def)
    have "\<not> killer_alone ?e" by (simp add: e killer_alone_def truthy_def)
    then have fin: "finished (end_check ?e)" and win: "winner (end_check ?e) = Some ''faithfuls''"
      by (simp_all add: end_check_finished_iff end_check_winner e)
    have "alive (end_check ?e) = remove1 t (alive g)" by (simp add: e)
    moreover have "used (end_check ?e) = used g @ [''accusatecard'']
                      @ (if t = uid then remove1 ''accusatecard'' (hand_of (hands g) uid)
                         else hand_of (hands g) t)"
      by (simp add: e hand_of_update)
    moreover have "hand_of (hands (end_check ?e)) t = []" by (simp add: e hand_of_update)
    moreover have "killer (end_check ?e) = None" by (simp add: e)
    ultimately show ?thesis using True play fin win by simp
  next
    case False
    have e: "?e = ?g0\<lparr>alive := remove1 uid (alive g),
                used := used g @ [''accusatecard''] @ hand_of (hands ?g0) uid,
                hands := AList.update uid [] (hands ?g0),
                log := log g @ [get_username_by_id db uid @ '' used ACCUSATION and was wrong ''
                                 @ right_arrow @ '' '' @ get_username_by_id db uid
                                 @ '' eliminated.'']\<rparr>"
      using False named found nonzero target_alive
      by (simp add: effect_accusation_def Let_def truthy_def)
    have ka: "killer_alone (end_check ?e) = killer_alone ?e"
      and nh: "nobody_holds (end_check ?e) = nobody_holds ?e"
      by (simp_all add: killer_alone_def nobody_holds_def)
    have "alive (end_check ?e) = remove1 uid (alive g)" by (simp add: e)
    moreover have "used (end_check ?e)
        = used g @ [''accusatecard''] @ remove1 ''accusatecard'' (hand_of (hands g) uid)"
      by (simp add: e hand_of_update)
    moreover have "hands (end_check ?e) = AList.update uid [] (hands g)" by (simp add: e)
    moreover have "killer (end_check ?e) = killer g" by (simp add: e)
    moreover have "finished (end_check ?e)
        = (finished g \<or> killer_alone (end_check ?e) \<or> nobody_holds (end_check ?e))"
      unfolding ka nh by (simp add: end_check_finished_iff) (simp add: e)
    moreover have "winner (end_check ?e)
        = (if killer_alone (end_check ?e) then Some ''killer''
           else if nobody_holds (end_check ?e) then Some ''faithfuls'' else winner g)"
      unfolding ka nh by (simp add: end_check_winner) (simp add: e)
    ultimately show ?thesis using False play by simp
  qed
qed

text \<open>
  Ann's accusation of bob in \<open>game_b_last_card\<close>, where nobody is the killer: every
  hypothesis holds and ann is eliminated.
\<close>

theorem accusation_resolution_witness:
  "1 \<in> set (players game_b_last_card) \<and> 1 \<in> set (alive game_b_last_card)
   \<and> ''accusatecard'' \<in> set (hand_of (hands game_b_last_card) 1)
   \<and> get_userid_by_username db5 ''bob'' = Some 2 \<and> 2 \<in> set (alive game_b_last_card)
   \<and> killer game_b_last_card \<noteq> Some 2
   \<and> (\<exists>g'. play_card db5 (Some 1) (Some game_b_last_card) (Some ''accusatecard'') ''bob'' [] = Inr g'
         \<and> alive g' = [2, 3, 4, 5]
         \<and> used g' = used game_b_last_card @ [''accusatecard'']
         \<and> hands g' = [(1, []), (2, []), (3, []), (4, []), (5, [])]
         \<and> killer g' = None)"
proof -
  have h1: "1 \<in> set (players game_b_last_card)" by code_simp
  have h2: "1 \<in> set (alive game_b_last_card)" by code_simp
  have h3: "''accusatecard'' \<in> set (hand_of (hands game_b_last_card) 1)" by code_simp
  have h4: "''bob'' \<noteq> []" by simp
  have h5: "get_userid_by_username db5 ''bob'' = Some 2" by code_simp
  have h6: "(2::int) \<noteq> 0" by simp
  have h7: "2 \<in> set (alive game_b_last_card)" by code_simp
  have k: "killer game_b_last_card = None" by code_simp
  have a: "remove1 1 (alive game_b_last_card) = [2, 3, 4, 5]" by code_simp
  have u: "remove1 ''accusatecard'' (hand_of (hands game_b_last_card) 1) = []" by code_simp
  have h: "AList.update 1 [] (hands game_b_last_card) = [(1, []), (2, []), (3, []), (4, []), (5, [])]"
    by code_simp
  from accusation_resolution [OF h1 h2 h3 h4 h5 h6 h7, of "[]"]
  show ?thesis using h1 h2 h3 h5 h7 by (auto simp: k a u h)
qed

text \<open>
  The claim as stated fails at that play. The session \<open>game_b_last_card\<close> is reached
  from a fresh deal by fourteen accepted plays and is not finished; bob is alive and
  not the killer; ann's accusation of him eliminates her, bob, cat, dan and eve remain
  alive, and the session is finished with winner faithfuls, because no killer exists
  and every hand is now empty.
\<close>

theorem accusation_wrong_counterexample:
  "new_game [1, 2, 3, 4, 5] rs_b ''e5f6a7b8'' 0 = Some game_b0
   \<and> play_all db5 game_b0 plays_b = Inr game_b_last_card
   \<and> \<not> finished game_b_last_card
   \<and> get_userid_by_username db5 ''bob'' = Some 2
   \<and> killer game_b_last_card \<noteq> Some 2
   \<and> play_card db5 (Some 1) (Some game_b_last_card) (Some ''accusatecard'') ''bob'' [] = Inr game_b_wrong
   \<and> alive game_b_wrong = [2, 3, 4, 5]
   \<and> finished game_b_wrong
   \<and> winner game_b_wrong = Some ''faithfuls''"
proof -
  have "\<not> finished game_b_last_card" by code_simp
  moreover have "get_userid_by_username db5 ''bob'' = Some 2" by code_simp
  moreover have "killer game_b_last_card \<noteq> Some 2" by code_simp
  moreover have "alive game_b_wrong = [2, 3, 4, 5]" by code_simp
  moreover have "finished game_b_wrong" by code_simp
  moreover have "winner game_b_wrong = Some ''faithfuls''" by code_simp
  ultimately show ?thesis by (simp add: deal_b run_b play_b_wrong)
qed

section \<open>The killer's win\<close>




section \<open>KILL\<close>

text \<open>
  Claim C5. An alive participant who holds KILL plays it: the actor is the killer
  afterwards, whatever the target. If the named target is alive and is not the actor,
  then either the target's shield flag is set, in which case the alive list is
  unchanged, one SHIELD card is appended to the actor's hand (no other hand changes)
  and the target's shield flag is cleared; or it is not set, in which case the target
  leaves the alive list and the target's hand is moved to the used pile.
\<close>

theorem kill_resolution:
  assumes part: "uid \<in> set (players g)" and live: "uid \<in> set (alive g)"
    and held: "''killcard'' \<in> set (hand_of (hands g) uid)"
  shows "\<exists>g'. play_card db (Some uid) (Some g) (Some ''killcard'') tu rs = Inr g' \<and>
     killer g' = Some uid \<and>
     (tu \<noteq> [] \<and> get_userid_by_username db tu = Some t \<and> t \<noteq> 0 \<and> t \<in> set (alive g) \<and> t \<noteq> uid
      \<longrightarrow>
        (if map_of (shields_equipped g) t = Some True then
           alive g' = alive g
           \<and> hands g' = AList.update uid
                          (remove1 ''killcard'' (hand_of (hands g) uid) @ [''shieldcard'']) (hands g)
           \<and> map_of (shields_equipped g') t = None
           \<and> used g' = used g @ [''killcard'']
         else
           alive g' = remove1 t (alive g)
           \<and> used g' = used g @ [''killcard''] @ hand_of (hands g) t
           \<and> hands g' = AList.update t []
                          (AList.update uid (remove1 ''killcard'' (hand_of (hands g) uid)) (hands g))))"
proof -
  let ?g0 = "remove_played uid ''killcard'' g"
  let ?e = "effect_kill db uid ''killcard'' tu ?g0"
  have play: "play_card db (Some uid) (Some g) (Some ''killcard'') tu rs = Inr (end_check ?e)"
    using play_card_accepted [OF part live held] by (simp add: card_effect_cards)
  have killer: "killer (end_check ?e) = Some uid" by (simp add: effect_kill_killer)
  have "(if map_of (shields_equipped g) t = Some True then
           alive (end_check ?e) = alive g
           \<and> hands (end_check ?e) = AList.update uid
                          (remove1 ''killcard'' (hand_of (hands g) uid) @ [''shieldcard'']) (hands g)
           \<and> map_of (shields_equipped (end_check ?e)) t = None
           \<and> used (end_check ?e) = used g @ [''killcard'']
         else
           alive (end_check ?e) = remove1 t (alive g)
           \<and> used (end_check ?e) = used g @ [''killcard''] @ hand_of (hands g) t
           \<and> hands (end_check ?e) = AList.update t []
                          (AList.update uid (remove1 ''killcard'' (hand_of (hands g) uid)) (hands g)))"
    if named: "tu \<noteq> []" and found: "get_userid_by_username db tu = Some t" and nonzero: "t \<noteq> 0"
      and target_alive: "t \<in> set (alive g)" and other: "t \<noteq> uid"
  proof (cases "map_of (shields_equipped g) t = Some True")
    case True
    from target_alive True have a0: "t \<in> set (alive ?g0)"
      and s0: "map_of (shields_equipped ?g0) t = Some True" by simp_all
    note e = effect_kill_break [OF named found nonzero a0 other s0, of "''killcard''"]
    show ?thesis using True by (simp add: e hand_of_update delete_conv')
  next
    case False
    from target_alive False have a0: "t \<in> set (alive ?g0)"
      and s0: "map_of (shields_equipped ?g0) t \<noteq> Some True" by simp_all
    note e = effect_kill_eliminate [OF named found nonzero a0 other s0, of "''killcard''"]
    show ?thesis using False other by (simp add: e hand_of_update)
  qed
  with play killer show ?thesis by blast
qed

text \<open>
  Ann holds KILL in \<open>game_a_bob_empty\<close>, where bob has equipped a shield and cat has
  not: a KILL on bob breaks the shield, a KILL on cat eliminates her.
\<close>

theorem kill_resolution_witness:
  "1 \<in> set (players game_a_bob_empty) \<and> 1 \<in> set (alive game_a_bob_empty)
   \<and> ''killcard'' \<in> set (hand_of (hands game_a_bob_empty) 1)
   \<and> get_userid_by_username db5 ''bob'' = Some 2 \<and> 2 \<in> set (alive game_a_bob_empty)
   \<and> map_of (shields_equipped game_a_bob_empty) 2 = Some True
   \<and> (\<exists>g'. play_card db5 (Some 1) (Some game_a_bob_empty) (Some ''killcard'') ''bob'' [] = Inr g'
         \<and> killer g' = Some 1
         \<and> alive g' = [1, 2, 3, 4, 5]
         \<and> hand_of (hands g') 1 = [''accusatecard'', ''shieldcard'', ''shieldcard'']
         \<and> map_of (shields_equipped g') 2 = None)
   \<and> get_userid_by_username db5 ''cat'' = Some 3
   \<and> map_of (shields_equipped game_a_bob_empty) 3 \<noteq> Some True
   \<and> (\<exists>g'. play_card db5 (Some 1) (Some game_a_bob_empty) (Some ''killcard'') ''cat'' [] = Inr g'
         \<and> killer g' = Some 1
         \<and> alive g' = [1, 2, 4, 5]
         \<and> used g' = [''statecard'', ''statecard'', ''killcard'',
                       ''judgecard'', ''exchangecard'', ''exchangecard''])"
proof -
  have h1: "1 \<in> set (players game_a_bob_empty)" by code_simp
  have h2: "1 \<in> set (alive game_a_bob_empty)" by code_simp
  have h3: "''killcard'' \<in> set (hand_of (hands game_a_bob_empty) 1)" by code_simp
  have bob: "get_userid_by_username db5 ''bob'' = Some 2" by code_simp
  have cat: "get_userid_by_username db5 ''cat'' = Some 3" by code_simp
  have a2: "2 \<in> set (alive game_a_bob_empty)" and a3: "3 \<in> set (alive game_a_bob_empty)"
    by code_simp+
  have s2: "map_of (shields_equipped game_a_bob_empty) 2 = Some True" by code_simp
  have s3: "map_of (shields_equipped game_a_bob_empty) 3 \<noteq> Some True" by code_simp
  have al: "alive game_a_bob_empty = [1, 2, 3, 4, 5]" by code_simp
  have hd: "hand_of (AList.update 1 (remove1 ''killcard'' (hand_of (hands game_a_bob_empty) 1)
                 @ [''shieldcard'']) (hands game_a_bob_empty)) 1
            = [''accusatecard'', ''shieldcard'', ''shieldcard'']" by code_simp
  have us: "used game_a_bob_empty @ ''killcard'' # hand_of (hands game_a_bob_empty) 3
            = [''statecard'', ''statecard'', ''killcard'',
               ''judgecard'', ''exchangecard'', ''exchangecard'']" by code_simp
  from kill_resolution [OF h1 h2 h3, of db5 "''bob''" "[]" 2] bob a2 s2
  have "\<exists>g'. play_card db5 (Some 1) (Some game_a_bob_empty) (Some ''killcard'') ''bob'' [] = Inr g'
         \<and> killer g' = Some 1
         \<and> alive g' = [1, 2, 3, 4, 5]
         \<and> hand_of (hands g') 1 = [''accusatecard'', ''shieldcard'', ''shieldcard'']
         \<and> map_of (shields_equipped g') 2 = None"
    by (auto simp: al hd)
  moreover
  from kill_resolution [OF h1 h2 h3, of db5 "''cat''" "[]" 3] cat a3 s3
  have "\<exists>g'. play_card db5 (Some 1) (Some game_a_bob_empty) (Some ''killcard'') ''cat'' [] = Inr g'
         \<and> killer g' = Some 1
         \<and> alive g' = [1, 2, 4, 5]
         \<and> used g' = [''statecard'', ''statecard'', ''killcard'',
                       ''judgecard'', ''exchangecard'', ''exchangecard'']"
    by (auto simp: al us)
  ultimately show ?thesis using h1 h2 h3 bob cat a2 s2 s3 by blast
qed

section \<open>SHIELD\<close>

text \<open>
  Claim C6, as amended. An alive participant who holds SHIELD plays it: the card is
  not discarded to the used pile, but it does leave the actor's hand (one SHIELD is
  removed from it, no other hand changes) and is kept only as the actor's shield flag,
  which is set; deck, used pile, alive list and killer are unchanged. A shield flag
  that is set stays set through every accepted play other than a KILL that breaks
  that very shield.
\<close>

theorem shield_play:
  "(uid \<in> set (players g) \<and> uid \<in> set (alive g) \<and> ''shieldcard'' \<in> set (hand_of (hands g) uid)
    \<longrightarrow> (\<exists>g'. play_card db (Some uid) (Some g) (Some ''shieldcard'') tu rs = Inr g'
           \<and> hands g' = AList.update uid (remove1 ''shieldcard'' (hand_of (hands g) uid)) (hands g)
           \<and> map_of (shields_equipped g') uid = Some True
           \<and> deck g' = deck g \<and> used g' = used g \<and> alive g' = alive g \<and> killer g' = killer g))
   \<and> (map_of (shields_equipped g2) p = Some True
      \<and> play_card db2 (Some a) (Some g2) cf tu2 rs2 = Inr g2'
      \<and> \<not> (cf = Some ''killcard'' \<and> kill_breaks_shield db2 a tu2 g2
             \<and> get_userid_by_username db2 tu2 = Some p)
    \<longrightarrow> map_of (shields_equipped g2') p = Some True)"
proof (intro conjI impI)
  assume "uid \<in> set (players g) \<and> uid \<in> set (alive g)
          \<and> ''shieldcard'' \<in> set (hand_of (hands g) uid)"
  then have part: "uid \<in> set (players g)" and live: "uid \<in> set (alive g)"
    and held: "''shieldcard'' \<in> set (hand_of (hands g) uid)" by simp_all
  have "play_card db (Some uid) (Some g) (Some ''shieldcard'') tu rs
          = Inr (end_check (effect_shield db uid (remove_played uid ''shieldcard'' g)))"
    using play_card_accepted [OF part live held] by (simp add: card_effect_cards)
  then show "\<exists>g'. play_card db (Some uid) (Some g) (Some ''shieldcard'') tu rs = Inr g'
           \<and> hands g' = AList.update uid (remove1 ''shieldcard'' (hand_of (hands g) uid)) (hands g)
           \<and> map_of (shields_equipped g') uid = Some True
           \<and> deck g' = deck g \<and> used g' = used g \<and> alive g' = alive g \<and> killer g' = killer g"
    by (simp add: effect_shield_def update_conv')
next
  assume asm: "map_of (shields_equipped g2) p = Some True
      \<and> play_card db2 (Some a) (Some g2) cf tu2 rs2 = Inr g2'
      \<and> \<not> (cf = Some ''killcard'' \<and> kill_breaks_shield db2 a tu2 g2
             \<and> get_userid_by_username db2 tu2 = Some p)"
  then obtain c where cf: "cf = Some c"
    and g2': "g2' = end_check (card_effect db2 a c tu2 rs2 (remove_played a c g2))"
    by (auto simp: play_card_Inr)
  from asm have set: "map_of (shields_equipped g2) p = Some True" by simp
  show "map_of (shields_equipped g2') p = Some True"
  proof (cases "c = ''killcard'' \<and> kill_breaks_shield db2 a tu2 g2")
    case True
    then have "truthy (get_userid_by_username db2 tu2)" by (simp add: kill_breaks_shield_def)
    then obtain t where t: "get_userid_by_username db2 tu2 = Some t"
      by (auto simp: truthy_def split: option.splits)
    with asm True cf have "t \<noteq> p" by auto
    with True t set show ?thesis
      by (simp add: g2' card_effect_shields delete_conv')
  next
    case False
    with set show ?thesis
      by (auto simp: g2' card_effect_shields update_conv')
  qed
qed

text \<open>
  Ann's SHIELD in \<open>game_a0\<close>, and bob's shield, which is still set after eve's TAKE.
\<close>

theorem shield_play_witness:
  "1 \<in> set (players game_a0) \<and> 1 \<in> set (alive game_a0)
   \<and> ''shieldcard'' \<in> set (hand_of (hands game_a0) 1)
   \<and> (\<exists>g'. play_card db5 (Some 1) (Some game_a0) (Some ''shieldcard'') [] [] = Inr g'
         \<and> hand_of (hands g') 1 = [''accusatecard'', ''killcard'']
         \<and> map_of (shields_equipped g') 1 = Some True
         \<and> used g' = [] \<and> alive g' = [1, 2, 3, 4, 5] \<and> killer g' = Some 1)
   \<and> map_of (shields_equipped game_a_bob_empty) 2 = Some True
   \<and> play_card db5 (Some 5) (Some game_a_bob_empty) (Some ''takecard'') ''bob'' []
       = Inr game_a_take_nothing
   \<and> map_of (shields_equipped game_a_take_nothing) 2 = Some True"
proof -
  have h: "1 \<in> set (players game_a0) \<and> 1 \<in> set (alive game_a0)
           \<and> ''shieldcard'' \<in> set (hand_of (hands game_a0) 1)" by code_simp
  have s: "map_of (shields_equipped game_a_bob_empty) 2 = Some True" by code_simp
  have hd: "hand_of (AList.update 1 (remove1 ''shieldcard'' (hand_of (hands game_a0) 1))
              (hands game_a0)) 1 = [''accusatecard'', ''killcard'']" by code_simp
  have f: "used game_a0 = []" "alive game_a0 = [1, 2, 3, 4, 5]" "killer game_a0 = Some 1"
    by code_simp+
  from shield_play [of 1 game_a0 db5 "[]" "[]" game_a_bob_empty 2 db5 5 "Some ''takecard''"
      "''bob''" "[]" game_a_take_nothing]
  show ?thesis using h s by (auto simp: play_a_take_nothing hd f)
qed

text \<open>
  The claim as stated fails at ann's SHIELD in the freshly dealt \<open>game_a0\<close>: the card
  is not kept in her hand, which goes from three cards to two.
\<close>

theorem shield_play_counterexample:
  "new_game [1, 2, 3, 4, 5] rs_a ''a1b2c3d4'' 0 = Some game_a0
   \<and> hand_of (hands game_a0) 1 = [''accusatecard'', ''killcard'', ''shieldcard'']
   \<and> play_card db5 (Some 1) (Some game_a0) (Some ''shieldcard'') [] [] = Inr game_a_shielded
   \<and> hand_of (hands game_a_shielded) 1 = [''accusatecard'', ''killcard'']"
proof -
  have "hand_of (hands game_a0) 1 = [''accusatecard'', ''killcard'', ''shieldcard'']"
    by code_simp
  moreover have "hand_of (hands game_a_shielded) 1 = [''accusatecard'', ''killcard'']"
    by code_simp
  ultimately show ?thesis using deal_a play_a_shield by blast
qed

section \<open>TAKE from an empty hand\<close>

text \<open>
  Claim C7, as amended. An alive participant who holds TAKE plays it on an alive
  player, not themself, whose hand is empty. The TAKE card itself is spent: it moves
  from the actor's hand, which shrinks by one, to the used pile. Nothing else is
  taken: every other hand is as before, deck, alive list, killer and shield flags are
  unchanged, and the one log entry "<target> had no cards to take." is appended.
\<close>

theorem take_from_empty_hand:
  assumes part: "uid \<in> set (players g)" and live: "uid \<in> set (alive g)"
    and held: "''takecard'' \<in> set (hand_of (hands g) uid)"
    and named: "tu \<noteq> []" and found: "get_userid_by_username db tu = Some t"
    and nonzero: "t \<noteq> 0" and target_alive: "t \<in> set (alive g)" and other: "t \<noteq> uid"
    and empty: "hand_of (hands g) t = []"
  shows "\<exists>g'. play_card db (Some uid) (Some g) (Some ''takecard'') tu rs = Inr g' \<and>
     hands g' = AList.update uid (remove1 ''takecard'' (hand_of (hands g) uid)) (hands g)
     \<and> length (hand_of (hands g') uid) + 1 = length (hand_of (hands g) uid)
     \<and> (\<forall>p. p \<noteq> uid \<longrightarrow> hand_of (hands g') p = hand_of (hands g) p)
     \<and> used g' = used g @ [''takecard'']
     \<and> deck g' = deck g \<and> alive g' = alive g \<and> killer g' = killer g
     \<and> shields_equipped g' = shields_equipped g
     \<and> log g' = log g @ [tu @ '' had no cards to take.'']"
proof -
  let ?g0 = "remove_played uid ''takecard'' g"
  let ?e = "effect_take db uid ''takecard'' tu rs ?g0"
  have play: "play_card db (Some uid) (Some g) (Some ''takecard'') tu rs = Inr (end_check ?e)"
    using play_card_accepted [OF part live held] by (simp add: card_effect_cards)
  from target_alive have a0: "t \<in> set (alive ?g0)" by simp
  from empty other have e0: "hand_of (hands ?g0) t = []" by (simp add: hand_of_update)
  note e = effect_take_empty [OF named found nonzero a0 other e0, of "''takecard''" rs]
  have "length (hand_of (hands (end_check ?e)) uid) + 1 = length (hand_of (hands g) uid)"
    using length_remove1_mem [OF held] by (simp add: e hand_of_update)
  with play show ?thesis by (simp add: e hand_of_update)
qed

text \<open>Eve's TAKE on bob, who has played all his cards.\<close>

theorem take_from_empty_hand_witness:
  "5 \<in> set (players game_a_bob_empty) \<and> 5 \<in> set (alive game_a_bob_empty)
   \<and> ''takecard'' \<in> set (hand_of (hands game_a_bob_empty) 5)
   \<and> get_userid_by_username db5 ''bob'' = Some 2 \<and> 2 \<in> set (alive game_a_bob_empty)
   \<and> hand_of (hands game_a_bob_empty) 2 = []
   \<and> (\<exists>g'. play_card db5 (Some 5) (Some game_a_bob_empty) (Some ''takecard'') ''bob'' [] = Inr g'
         \<and> hand_of (hands g') 5 = [''takecard'', ''takecard'']
         \<and> hand_of (hands g') 2 = []
         \<and> used g' = [''statecard'', ''statecard'', ''takecard'']
         \<and> log g' = [''bob played STATE.'', ''bob played STATE.'', ''bob equipped SHIELD.'',
                      ''bob had no cards to take.''])"
proof -
  have h1: "5 \<in> set (players game_a_bob_empty)" by code_simp
  have h2: "5 \<in> set (alive game_a_bob_empty)" by code_simp
  have h3: "''takecard'' \<in> set (hand_of (hands game_a_bob_empty) 5)" by code_simp
  have h4: "''bob'' \<noteq> []" by simp
  have h5: "get_userid_by_username db5 ''bob'' = Some 2" by code_simp
  have h6: "(2::int) \<noteq> 0" and h8: "(2::int) \<noteq> 5" by simp_all
  have h7: "2 \<in> set (alive game_a_bob_empty)" by code_simp
  have h9: "hand_of (hands game_a_bob_empty) 2 = []" by code_simp
  have hd: "hand_of (AList.update 5 (remove1 ''takecard'' (hand_of (hands game_a_bob_empty) 5))
              (hands game_a_bob_empty)) 5 = [''takecard'', ''takecard'']" by code_simp
  have u: "used game_a_bob_empty = [''statecard'', ''statecard'']" by code_simp
  have l: "log game_a_bob_empty
            = [''bob played STATE.'', ''bob played STATE.'', ''bob equipped SHIELD.'']"
    by code_simp
  from take_from_empty_hand [OF h1 h2 h3 h4 h5 h6 h7 h8 h9, of "[]"]
  obtain g' where
    p: "play_card db5 (Some 5) (Some game_a_bob_empty) (Some ''takecard'') ''bob'' [] = Inr g'"
    and hs: "hands g' = AList.update 5 (remove1 ''takecard'' (hand_of (hands game_a_bob_empty) 5))
              (hands game_a_bob_empty)"
    and oth: "\<forall>p. p \<noteq> 5 \<longrightarrow> hand_of (hands g') p = hand_of (hands game_a_bob_empty) p"
    and us: "used g' = used game_a_bob_empty @ [''takecard'']"
    and lg: "log g' = log game_a_bob_empty @ [''bob'' @ '' had no cards to take.'']"
    by blast
  from oth h9 have "hand_of (hands g') 2 = []" by simp
  moreover from hs hd have "hand_of (hands g') 5 = [''takecard'', ''takecard'']" by simp
  moreover from us u have "used g' = [''statecard'', ''statecard'', ''takecard'']" by simp
  moreover from lg l have "log g' = [''bob played STATE.'', ''bob played STATE.'',
      ''bob equipped SHIELD.'', ''bob had no cards to take.'']" by simp
  ultimately show ?thesis using p h1 h2 h3 h5 h7 h9 by blast
qed

text \<open>
  The claim as stated fails at that play, three accepted plays after a fresh deal: bob
  is alive and his hand is empty, and the call takes eve's hand from three cards to two
  and adds a card to the used pile.
\<close>

theorem take_from_empty_hand_counterexample:
  "new_game [1, 2, 3, 4, 5] rs_a ''a1b2c3d4'' 0 = Some game_a0
   \<and> play_all db5 game_a0 [(2, ''statecard'', []), (2, ''statecard'', []), (2, ''shieldcard'', [])]
     = Inr game_a_bob_empty
   \<and> get_userid_by_username db5 ''bob'' = Some 2
   \<and> 2 \<in> set (alive game_a_bob_empty)
   \<and> hand_of (hands game_a_bob_empty) 2 = []
   \<and> play_card db5 (Some 5) (Some game_a_bob_empty) (Some ''takecard'') ''bob'' []
       = Inr game_a_take_nothing
   \<and> length (hand_of (hands game_a_bob_empty) 5) = 3
   \<and> length (hand_of (hands game_a_take_nothing) 5) = 2
   \<and> used game_a_bob_empty = [''statecard'', ''statecard'']
   \<and> used game_a_take_nothing = [''statecard'', ''statecard'', ''takecard'']"
proof -
  have "get_userid_by_username db5 ''bob'' = Some 2" by code_simp
  moreover have "2 \<in> set (alive game_a_bob_empty)" by code_simp
  moreover have "hand_of (hands game_a_bob_empty) 2 = []" by code_simp
  moreover have "length (hand_of (hands game_a_bob_empty) 5) = 3" by code_simp
  moreover have "length (hand_of (hands game_a_take_nothing) 5) = 2" by code_simp
  moreover have "used game_a_bob_empty = [''statecard'', ''statecard'']" by code_simp
  moreover have "used game_a_take_nothing = [''statecard'', ''statecard'', ''takecard'']"
    by code_simp
  ultimately show ?thesis using deal_a run_a_bob play_a_take_nothing by blast
qed

section \<open>Matchmaking\<close>

text \<open>
  Claim C8. After any sequence of join calls, started from the empty queue, the queue
  holds no duplicates and fewer than \<open>MATCH_SIZE = 5\<close> players. A join by a player
  already queued changes nothing. A join by a new player that brings the queue below
  five appends the player. A join that brings it to five dequeues all five in queue
  order, makes them the participants of one new session, stored under its id, and
  leaves the queue empty. In particular five joins by distinct players create exactly
  one session, with those five participants.
\<close>

theorem join_queue_matchmaking:
  "distinct (matchmaking_queue (run_joins cs))
   \<and> length (matchmaking_queue (run_joins cs)) < MATCH_SIZE
   \<and> (u1 \<in> set (matchmaking_queue (run_joins cs1))
      \<longrightarrow> join_queue (Some u1) r1 i1 n1 (run_joins cs1) = (Not_started, run_joins cs1))
   \<and> (u2 \<notin> set (matchmaking_queue (run_joins cs2))
        \<and> length (matchmaking_queue (run_joins cs2)) + 1 < MATCH_SIZE
      \<longrightarrow> join_queue (Some u2) r2 i2 n2 (run_joins cs2)
            = (Not_started,
               (run_joins cs2)\<lparr>matchmaking_queue := matchmaking_queue (run_joins cs2) @ [u2]\<rparr>))
   \<and> (u3 \<notin> set (matchmaking_queue (run_joins cs3))
        \<and> length (matchmaking_queue (run_joins cs3)) + 1 = MATCH_SIZE
      \<longrightarrow> (\<exists>g. new_game (matchmaking_queue (run_joins cs3) @ [u3]) r3 i3 n3 = Some g
             \<and> players g = matchmaking_queue (run_joins cs3) @ [u3]
             \<and> length (players g) = 5
             \<and> join_queue (Some u3) r3 i3 n3 (run_joins cs3)
                 = (Started i3,
                    (run_joins cs3)\<lparr>matchmaking_queue := [],
                       games := AList.update i3 g (games (run_joins cs3)),
                       user_to_game := fold (\<lambda>pid m. AList.update pid i3 m)
                                         (matchmaking_queue (run_joins cs3) @ [u3])
                                         (user_to_game (run_joins cs3))\<rparr>)))
   \<and> (distinct [a, b, c, d, e]
      \<longrightarrow> (\<exists>g. new_game [a, b, c, d, e] re ie ne = Some g
             \<and> players g = [a, b, c, d, e]
             \<and> run_joins [\<lparr>jc_user = a, jc_rand = ra, jc_gid = ia, jc_now = na\<rparr>,
                           \<lparr>jc_user = b, jc_rand = rb, jc_gid = ib, jc_now = nb\<rparr>,
                           \<lparr>jc_user = c, jc_rand = rc, jc_gid = ic, jc_now = nc\<rparr>,
                           \<lparr>jc_user = d, jc_rand = rd, jc_gid = id', jc_now = nd\<rparr>,
                           \<lparr>jc_user = e, jc_rand = re, jc_gid = ie, jc_now = ne\<rparr>]
                 = \<lparr>matchmaking_queue = [], games = [(ie, g)],
                    user_to_game = [(a, ie), (b, ie), (c, ie), (d, ie), (e, ie)]\<rparr>))"
proof (intro conjI impI)
  show "distinct (matchmaking_queue (run_joins cs))"
    and "length (matchmaking_queue (run_joins cs)) < MATCH_SIZE"
    using run_joins_inv [of cs] by simp_all
next
  assume "u1 \<in> set (matchmaking_queue (run_joins cs1))"
  then show "join_queue (Some u1) r1 i1 n1 (run_joins cs1) = (Not_started, run_joins cs1)"
    using run_joins_inv [of cs1] by (simp add: join_queue_queued)
next
  assume "u2 \<notin> set (matchmaking_queue (run_joins cs2))
        \<and> length (matchmaking_queue (run_joins cs2)) + 1 < MATCH_SIZE"
  then show "join_queue (Some u2) r2 i2 n2 (run_joins cs2)
            = (Not_started,
               (run_joins cs2)\<lparr>matchmaking_queue := matchmaking_queue (run_joins cs2) @ [u2]\<rparr>)"
    by (simp add: join_queue_short)
next
  let ?st = "run_joins cs3"
  assume asm: "u3 \<notin> set (matchmaking_queue ?st) \<and> length (matchmaking_queue ?st) + 1 = MATCH_SIZE"
  then have five: "length (matchmaking_queue ?st @ [u3]) = 5" by (simp add: MATCH_SIZE_def)
  from new_game_Some [OF five] obtain g where
    g: "new_game (matchmaking_queue ?st @ [u3]) r3 i3 n3 = Some g" by blast
  from new_game_fields(1) [OF g] five have "players g = matchmaking_queue ?st @ [u3]"
    and "length (players g) = 5" by simp_all
  with g join_queue_full [of u3 ?st r3 i3 n3 g] asm
  show "\<exists>g. new_game (matchmaking_queue ?st @ [u3]) r3 i3 n3 = Some g
             \<and> players g = matchmaking_queue ?st @ [u3]
             \<and> length (players g) = 5
             \<and> join_queue (Some u3) r3 i3 n3 ?st
                 = (Started i3,
                    ?st\<lparr>matchmaking_queue := [],
                       games := AList.update i3 g (games ?st),
                       user_to_game := fold (\<lambda>pid m. AList.update pid i3 m)
                                         (matchmaking_queue ?st @ [u3]) (user_to_game ?st)\<rparr>)"
    by blast
next
  assume dist: "distinct [a, b, c, d, e]"
  let ?four = "[\<lparr>jc_user = a, jc_rand = ra, jc_gid = ia, jc_now = na\<rparr>,
                \<lparr>jc_user = b, jc_rand = rb, jc_gid = ib, jc_now = nb\<rparr>,
                \<lparr>jc_user = c, jc_rand = rc, jc_gid = ic, jc_now = nc\<rparr>,
                \<lparr>jc_user = d, jc_rand = rd, jc_gid = id', jc_now = nd\<rparr>]"
  let ?last = "\<lparr>jc_user = e, jc_rand = re, jc_gid = ie, jc_now = ne\<rparr>"
  from dist have four: "run_joins ?four
      = \<lparr>matchmaking_queue = [a, b, c, d], games = [], user_to_game = []\<rparr>"
    by (intro run_four_joins) simp
  obtain g where g: "new_game [a, b, c, d, e] re ie ne = Some g"
    using new_game_Some [of "[a, b, c, d, e]" re ie ne] by auto
  from dist have "e \<notin> set (matchmaking_queue (run_joins ?four))" by (auto simp: four)
  moreover have "length (matchmaking_queue (run_joins ?four)) + 1 = MATCH_SIZE"
    by (simp add: four MATCH_SIZE_def)
  moreover have "new_game (matchmaking_queue (run_joins ?four) @ [e]) re ie ne = Some g"
    by (simp add: four g)
  ultimately have "join_queue (Some e) re ie ne (run_joins ?four)
      = (Started ie, (run_joins ?four)\<lparr>matchmaking_queue := [],
            games := AList.update ie g (games (run_joins ?four)),
            user_to_game := fold (\<lambda>pid m. AList.update pid ie m)
                (matchmaking_queue (run_joins ?four) @ [e]) (user_to_game (run_joins ?four))\<rparr>)"
    by (rule join_queue_full)
  moreover from dist have "fold (\<lambda>pid m. AList.update pid ie m) [a, b, c, d, e] []
      = [(a, ie), (b, ie), (c, ie), (d, ie), (e, ie)]" by auto
  ultimately have "join_step (run_joins ?four) ?last
      = \<lparr>matchmaking_queue = [], games = [(ie, g)],
         user_to_game = [(a, ie), (b, ie), (c, ie), (d, ie), (e, ie)]\<rparr>"
    by (simp add: join_step_def four)
  moreover have "run_joins (?four @ [?last]) = join_step (run_joins ?four) ?last"
    by (rule run_joins_snoc)
  ultimately have "run_joins (?four @ [?last])
      = \<lparr>matchmaking_queue = [], games = [(ie, g)],
         user_to_game = [(a, ie), (b, ie), (c, ie), (d, ie), (e, ie)]\<rparr>" by simp
  with g new_game_fields(1) [OF g]
  show "\<exists>g. new_game [a, b, c, d, e] re ie ne = Some g
             \<and> players g = [a, b, c, d, e]
             \<and> run_joins [\<lparr>jc_user = a, jc_rand = ra, jc_gid = ia, jc_now = na\<rparr>,
                           \<lparr>jc_user = b, jc_rand = rb, jc_gid = ib, jc_now = nb\<rparr>,
                           \<lparr>jc_user = c, jc_rand = rc, jc_gid = ic, jc_now = nc\<rparr>,
                           \<lparr>jc_user = d, jc_rand = rd, jc_gid = id', jc_now = nd\<rparr>,
                           \<lparr>jc_user = e, jc_rand = re, jc_gid = ie, jc_now = ne\<rparr>]
                 = \<lparr>matchmaking_queue = [], games = [(ie, g)],
                    user_to_game = [(a, ie), (b, ie), (c, ie), (d, ie), (e, ie)]\<rparr>"
    by auto
qed

text \<open>
  Ann, bob, cat and dan are queued. Ann joining again changes nothing; bob joining
  after ann alone is appended; eve joining as the fifth starts the session \<open>game_a0\<close>
  and empties the queue.
\<close>

theorem join_queue_matchmaking_witness:
  "distinct (matchmaking_queue (run_joins joins4))
   \<and> length (matchmaking_queue (run_joins joins4)) < MATCH_SIZE
   \<and> 1 \<in> set (matchmaking_queue (run_joins joins4))
   \<and> join_queue (Some 1) [] ''00000005'' 0 (run_joins joins4) = (Not_started, run_joins joins4)
   \<and> 2 \<notin> set (matchmaking_queue
                (run_joins [\<lparr>jc_user = 1, jc_rand = [], jc_gid = ''00000001'', jc_now = 0\<rparr>]))
   \<and> join_queue (Some 2) [] ''00000002'' 0
         (run_joins [\<lparr>jc_user = 1, jc_rand = [], jc_gid = ''00000001'', jc_now = 0\<rparr>])
       = (Not_started, \<lparr>matchmaking_queue = [1, 2], games = [], user_to_game = []\<rparr>)
   \<and> 5 \<notin> set (matchmaking_queue (run_joins joins4))
   \<and> length (matchmaking_queue (run_joins joins4)) + 1 = MATCH_SIZE
   \<and> join_queue (Some 5) rs_a ''a1b2c3d4'' 0 (run_joins joins4)
       = (Started ''a1b2c3d4'', state_after_match)
   \<and> distinct [1, 2, 3, 4, 5 :: int]
   \<and> run_joins [\<lparr>jc_user = 1, jc_rand = [], jc_gid = ''00000001'', jc_now = 0\<rparr>,
                 \<lparr>jc_user = 2, jc_rand = [], jc_gid = ''00000002'', jc_now = 0\<rparr>,
                 \<lparr>jc_user = 3, jc_rand = [], jc_gid = ''00000003'', jc_now = 0\<rparr>,
                 \<lparr>jc_user = 4, jc_rand = [], jc_gid = ''00000004'', jc_now = 0\<rparr>,
                 \<lparr>jc_user = 5, jc_rand = rs_a, jc_gid = ''a1b2c3d4'', jc_now = 0\<rparr>]
       = state_after_match"
proof -
  let ?one = "[\<lparr>jc_user = 1, jc_rand = [], jc_gid = ''00000001'', jc_now = 0\<rparr>]"
  note inst = join_queue_matchmaking [where cs = joins4
      and ?u1.0 = 1 and ?cs1.0 = joins4 and ?r1.0 = "[]" and ?i1.0 = "''00000005''" and ?n1.0 = 0
      and ?u2.0 = 2 and ?cs2.0 = ?one and ?r2.0 = "[]" and ?i2.0 = "''00000002''" and ?n2.0 = 0
      and ?u3.0 = 5 and ?cs3.0 = joins4 and ?r3.0 = rs_a and ?i3.0 = "''a1b2c3d4''" and ?n3.0 = 0
      and a = 1 and b = 2 and c = 3 and d = 4 and e = 5
      and ra = "[]" and ia = "''00000001''" and na = 0
      and rb = "[]" and ib = "''00000002''" and nb = 0
      and rc = "[]" and ic = "''00000003''" and nc = 0
      and rd = "[]" and id' = "''00000004''" and nd = 0
      and re = rs_a and ie = "''a1b2c3d4''" and ne = 0]
  have q4: "matchmaking_queue (run_joins joins4) = [1, 2, 3, 4]" by (simp add: run_joins4)
  have q1: "matchmaking_queue (run_joins ?one) = [1]" by (simp add: run_joins1)
  have ms: "MATCH_SIZE = 5" by (simp add: MATCH_SIZE_def)
  from inst have a: "distinct (matchmaking_queue (run_joins joins4))
      \<and> length (matchmaking_queue (run_joins joins4)) < MATCH_SIZE" by blast
  from inst q4 have b: "join_queue (Some 1) [] ''00000005'' 0 (run_joins joins4)
      = (Not_started, run_joins joins4)" by simp
  from inst q1 ms have c: "join_queue (Some 2) [] ''00000002'' 0 (run_joins ?one)
      = (Not_started, \<lparr>matchmaking_queue = [1, 2], games = [], user_to_game = []\<rparr>)"
    by (simp add: run_joins1)
  from inst q4 ms have d: "join_queue (Some 5) rs_a ''a1b2c3d4'' 0 (run_joins joins4)
      = (Started ''a1b2c3d4'', state_after_match)"
    by (simp add: deal_a run_joins4 state_after_match_def)
  from inst have i5: "distinct [1, 2, 3, 4, 5 :: int]
      \<longrightarrow> (\<exists>g. new_game [1, 2, 3, 4, 5] rs_a ''a1b2c3d4'' 0 = Some g
             \<and> players g = [1, 2, 3, 4, 5]
             \<and> run_joins [\<lparr>jc_user = 1, jc_rand = [], jc_gid = ''00000001'', jc_now = 0\<rparr>,
                 \<lparr>jc_user = 2, jc_rand = [], jc_gid = ''00000002'', jc_now = 0\<rparr>,
                 \<lparr>jc_user = 3, jc_rand = [], jc_gid = ''00000003'', jc_now = 0\<rparr>,
                 \<lparr>jc_user = 4, jc_rand = [], jc_gid = ''00000004'', jc_now = 0\<rparr>,
                 \<lparr>jc_user = 5, jc_rand = rs_a, jc_gid = ''a1b2c3d4'', jc_now = 0\<rparr>]
                 = \<lparr>matchmaking_queue = [], games = [(''a1b2c3d4'', g)],
                    user_to_game = [(1, ''a1b2c3d4''), (2, ''a1b2c3d4''), (3, ''a1b2c3d4''),
                                    (4, ''a1b2c3d4''), (5, ''a1b2c3d4'')]\<rparr>)"
    by (elim conjE) assumption
  have dist: "distinct [1, 2, 3, 4, 5 :: int]" by simp
  from i5 [rule_format, OF dist] have e:
    "run_joins [\<lparr>jc_user = 1, jc_rand = [], jc_gid = ''00000001'', jc_now = 0\<rparr>,
                 \<lparr>jc_user = 2, jc_rand = [], jc_gid = ''00000002'', jc_now = 0\<rparr>,
                 \<lparr>jc_user = 3, jc_rand = [], jc_gid = ''00000003'', jc_now = 0\<rparr>,
                 \<lparr>jc_user = 4, jc_rand = [], jc_gid = ''00000004'', jc_now = 0\<rparr>,
                 \<lparr>jc_user = 5, jc_rand = rs_a, jc_gid = ''a1b2c3d4'', jc_now = 0\<rparr>]
       = state_after_match"
    by (auto simp: deal_a state_after_match_def)
  from a b c d e q4 q1 ms show ?thesis by simp
qed

section \<open>Accusing oneself\<close>

text \<open>
  Claim C9. ACCUSATION does not ask that the target differ from the actor. An alive
  participant who holds the card and names themself is eliminated in either case
  (removed from the alive list, the rest of the hand moved to the used pile): as the
  correctly accused killer, with killer none and the session finished with winner
  faithfuls, if they are the current killer; as a wrong accuser, with the killer
  unchanged, otherwise.
\<close>

theorem self_accusation:
  assumes part: "uid \<in> set (players g)" and live: "uid \<in> set (alive g)"
    and held: "''accusatecard'' \<in> set (hand_of (hands g) uid)"
    and named: "tu \<noteq> []" and found: "get_userid_by_username db tu = Some uid"
    and nonzero: "uid \<noteq> 0"
  shows "\<exists>g'. play_card db (Some uid) (Some g) (Some ''accusatecard'') tu rs = Inr g' \<and>
     alive g' = remove1 uid (alive g)
     \<and> used g' = used g @ [''accusatecard''] @ remove1 ''accusatecard'' (hand_of (hands g) uid)
     \<and> hands g' = AList.update uid [] (hands g)
     \<and> (if killer g = Some uid
         then killer g' = None \<and> finished g' \<and> winner g' = Some ''faithfuls''
         else killer g' = killer g)"
proof -
  let ?g0 = "remove_played uid ''accusatecard'' g"
  let ?e = "effect_accusation db uid ''accusatecard'' tu ?g0"
  have play: "play_card db (Some uid) (Some g) (Some ''accusatecard'') tu rs = Inr (end_check ?e)"
    using play_card_accepted [OF part live held] by (simp add: card_effect_cards)
  have live0: "uid \<in> set (alive ?g0)" using live by simp
  show ?thesis
  proof (cases "killer g = Some uid")
    case True
    then have k0: "killer ?g0 = Some uid" by simp
    note e = effect_accusation_correct [OF named found nonzero live0 k0, of uid "''accusatecard''"]
    have "\<not> killer_alone ?e" by (simp add: e killer_alone_def truthy_def)
    then have "finished (end_check ?e)" and "winner (end_check ?e) = Some ''faithfuls''"
      by (simp_all add: end_check_finished_iff end_check_winner e)
    moreover have "alive (end_check ?e) = remove1 uid (alive g)" by (simp add: e)
    moreover have "used (end_check ?e)
        = used g @ [''accusatecard''] @ remove1 ''accusatecard'' (hand_of (hands g) uid)"
      by (simp add: e hand_of_update)
    moreover have "hands (end_check ?e) = AList.update uid [] (hands g)" by (simp add: e)
    moreover have "killer (end_check ?e) = None" by (simp add: e)
    ultimately show ?thesis using True play by simp
  next
    case False
    then have k0: "killer ?g0 \<noteq> Some uid" by simp
    note e = effect_accusation_wrong [OF named found nonzero live0 k0, of uid "''accusatecard''"]
    have "alive (end_check ?e) = remove1 uid (alive g)" by (simp add: e)
    moreover have "used (end_check ?e)
        = used g @ [''accusatecard''] @ remove1 ''accusatecard'' (hand_of (hands g) uid)"
      by (simp add: e hand_of_update)
    moreover have "hands (end_check ?e) = AList.update uid [] (hands g)" by (simp add: e)
    moreover have "killer (end_check ?e) = killer g" by (simp add: e)
    ultimately show ?thesis using False play by simp
  qed
qed

text \<open>Ann, dealt both KILL and ACCUSATION in \<open>game_a0\<close>, accuses herself.\<close>

theorem self_accusation_witness:
  "1 \<in> set (players game_a0) \<and> 1 \<in> set (alive game_a0)
   \<and> ''accusatecard'' \<in> set (hand_of (hands game_a0) 1)
   \<and> get_userid_by_username db5 ''ann'' = Some 1 \<and> killer game_a0 = Some 1
   \<and> (\<exists>g'. play_card db5 (Some 1) (Some game_a0) (Some ''accusatecard'') ''ann'' [] = Inr g'
         \<and> alive g' = [2, 3, 4, 5]
         \<and> used g' = [''accusatecard'', ''killcard'', ''shieldcard'']
         \<and> killer g' = None \<and> finished g' \<and> winner g' = Some ''faithfuls'')"
proof -
  have h1: "1 \<in> set (players game_a0)" by code_simp
  have h2: "1 \<in> set (alive game_a0)" by code_simp
  have h3: "''accusatecard'' \<in> set (hand_of (hands game_a0) 1)" by code_simp
  have h4: "''ann'' \<noteq> []" by simp
  have h5: "get_userid_by_username db5 ''ann'' = Some 1" by code_simp
  have h6: "(1::int) \<noteq> 0" by simp
  have k: "killer game_a0 = Some 1" by code_simp
  have a: "remove1 1 (alive game_a0) = [2, 3, 4, 5]" by code_simp
  have u: "used game_a0 @ ''accusatecard'' # remove1 ''accusatecard'' (hand_of (hands game_a0) 1)
           = [''accusatecard'', ''killcard'', ''shieldcard'']" by code_simp
  from self_accusation [OF h1 h2 h3 h4 h5 h6, of "[]"]
  show ?thesis using h1 h2 h3 h5 k by (auto simp: a u)
qed

section \<open>EXCHANGE\<close>

text \<open>
  Claim C10. An alive participant who holds EXCHANGE plays it on an alive player other
  than themself: the actor gets the target's hand and the target gets the actor's (as
  it is once the EXCHANGE card has left it); every other player's hand, the shield
  flags, the alive list, the killer and the deck are unchanged, and the used pile
  gains the EXCHANGE card only.
\<close>

theorem exchange_swaps_hands:
  assumes part: "uid \<in> set (players g)" and live: "uid \<in> set (alive g)"
    and held: "''exchangecard'' \<in> set (hand_of (hands g) uid)"
    and named: "tu \<noteq> []" and found: "get_userid_by_username db tu = Some t"
    and nonzero: "t \<noteq> 0" and target_alive: "t \<in> set (alive g)" and other: "t \<noteq> uid"
  shows "\<exists>g'. play_card db (Some uid) (Some g) (Some ''exchangecard'') tu rs = Inr g' \<and>
     hand_of (hands g') uid = hand_of (hands g) t
     \<and> hand_of (hands g') t = remove1 ''exchangecard'' (hand_of (hands g) uid)
     \<and> (\<forall>p. p \<noteq> uid \<and> p \<noteq> t \<longrightarrow> map_of (hands g') p = map_of (hands g) p)
     \<and> shields_equipped g' = shields_equipped g
     \<and> alive g' = alive g \<and> killer g' = killer g \<and> deck g' = deck g
     \<and> used g' = used g @ [''exchangecard'']"
proof -
  let ?g0 = "remove_played uid ''exchangecard'' g"
  let ?e = "effect_exchange db uid ''exchangecard'' tu ?g0"
  have play: "play_card db (Some uid) (Some g) (Some ''exchangecard'') tu rs = Inr (end_check ?e)"
    using play_card_accepted [OF part live held] by (simp add: card_effect_cards)
  from target_alive have a0: "t \<in> set (alive ?g0)" by simp
  note e = effect_exchange_valid [OF named found nonzero a0 other, of "''exchangecard''"]
  from play other show ?thesis by (simp add: e hand_of_update update_conv')
qed

text \<open>Cat exchanges hands with dan in \<open>game_a0\<close>.\<close>

theorem exchange_swaps_hands_witness:
  "3 \<in> set (players game_a0) \<and> 3 \<in> set (alive game_a0)
   \<and> ''exchangecard'' \<in> set (hand_of (hands game_a0) 3)
   \<and> get_userid_by_username db5 ''dan'' = Some 4 \<and> 4 \<in> set (alive game_a0)
   \<and> (\<exists>g'. play_card db5 (Some 3) (Some game_a0) (Some ''exchangecard'') ''dan'' [] = Inr g'
         \<and> hand_of (hands g') 3 = [''exchangecard'', ''exchangecard'', ''exchangecard'']
         \<and> hand_of (hands g') 4 = [''judgecard'', ''exchangecard'']
         \<and> map_of (hands g') 1 = Some [''accusatecard'', ''killcard'', ''shieldcard'']
         \<and> used g' = [''exchangecard''])"
proof -
  have h1: "3 \<in> set (players game_a0)" by code_simp
  have h2: "3 \<in> set (alive game_a0)" by code_simp
  have h3: "''exchangecard'' \<in> set (hand_of (hands game_a0) 3)" by code_simp
  have h4: "''dan'' \<noteq> []" by simp
  have h5: "get_userid_by_username db5 ''dan'' = Some 4" by code_simp
  have h6: "(4::int) \<noteq> 0" and h8: "(4::int) \<noteq> 3" by simp_all
  have h7: "4 \<in> set (alive game_a0)" by code_simp
  have f: "hand_of (hands game_a0) 4 = [''exchangecard'', ''exchangecard'', ''exchangecard'']"
    "remove1 ''exchangecard'' (hand_of (hands game_a0) 3) = [''judgecard'', ''exchangecard'']"
    "map_of (hands game_a0) 1 = Some [''accusatecard'', ''killcard'', ''shieldcard'']"
    "used game_a0 = []"
    by code_simp+
  from exchange_swaps_hands [OF h1 h2 h3 h4 h5 h6 h7 h8, of "[]"]
  obtain g' where
    p: "play_card db5 (Some 3) (Some game_a0) (Some ''exchangecard'') ''dan'' [] = Inr g'"
    and a: "hand_of (hands g') 3 = hand_of (hands game_a0) 4"
    and b: "hand_of (hands g') 4 = remove1 ''exchangecard'' (hand_of (hands game_a0) 3)"
    and c: "\<forall>p. p \<noteq> 3 \<and> p \<noteq> 4 \<longrightarrow> map_of (hands g') p = map_of (hands game_a0) p"
    and d: "used g' = used game_a0 @ [''exchangecard'']"
    by blast
  from c have "map_of (hands g') 1 = map_of (hands game_a0) 1" by simp
  with a b d f p show ?thesis using h1 h2 h3 h5 h7 by auto
qed

end
